theory Spec2Isabelle
  imports Main
begin

section \<open>World Bank ingest: values, errors and the outside world\<close>

text \<open>
  The module \<^verbatim>\<open>src/ingest/ingest_worldbank_to_bq.py\<close> fetches paged JSON over HTTP,
  normalises it with pandas and appends two tables to BigQuery. The embedding keeps the
  module's functions and their order of effects. Python values are JSON values; floats
  are an abstract type \<open>'f\<close> (no arithmetic on them is done by the module).
\<close>

datatype 'f json =
    JNull
  | JBool bool
  | JInt int
  | JFloat 'f
  | JStr string
  | JArr "'f json list"
  | JObj "(string \<times> 'f json) list"

text \<open>
  Exceptions that the module, \<^verbatim>\<open>requests\<close>, pandas or the BigQuery client can raise.
  \<open>RuntimeError\<close> carries the value of \<^verbatim>\<open>last_err\<close> interpolated into its message
  (\<open>None\<close> is Python's \<^verbatim>\<open>None\<close>). \<open>Unmodelled\<close> marks inputs on which pandas keeps
  going in a way this development does not follow (two columns under one label, a list
  where a record is expected).
\<close>

datatype exn =
    ConnectionError
  | Timeout
  | JSONDecodeError
  | HTTPError int
  | RuntimeError "exn option"
  | IndexError
  | KeyError string
  | TypeError
  | ValueError
  | AttributeError
  | BigQueryError string
  | Unmodelled

datatype pval = PStr string | PInt int

record request =
  url :: string
  params :: "(string \<times> pval) list"
  timeout_s :: int

text \<open>
  A pandas cell. \<open>NaN\<close> is a missing cell: pandas holds \<^verbatim>\<open>None\<close>, \<^verbatim>\<open>nan\<close> or \<^verbatim>\<open>NA\<close> there,
  by the dtype of the column and the version of pandas, and treats them alike. \<open>Val\<close>
  holds a value that is not missing and \<open>Stamp\<close> a \<^verbatim>\<open>datetime\<close> (microseconds since the
  epoch, UTC). A row lists its cells under their column labels, in the frame's column
  order.
\<close>

datatype 'f cell = NaN | Val "'f json" | Stamp int

type_synonym 'f row = "(string \<times> 'f cell) list"

record 'f frame =
  columns :: "string list"
  data_rows :: "'f row list"

text \<open>
  What \<^verbatim>\<open>requests.get\<close> does: it raises, or it returns a response with a status code
  and a body; the body is \<open>None\<close> when \<^verbatim>\<open>r.json()\<close> cannot decode it.
\<close>

datatype 'f reply = Raised exn | Response int "'f json option"

text \<open>
  Effects are recorded in a trace, oldest first. The outside world answers as a function
  of the trace so far, so a server may answer the same request differently each time.
  \<open>Sleep\<close> carries the delay in milliseconds.
\<close>

datatype 'f event =
    Get request
  | Sleep nat
  | Uuid4
  | Now
  | NewClient string
  | GetTable string
  | CreateTable string
  | LoadJob string "'f frame"

type_synonym 'f trace = "'f event list"

type_synonym 'f transport = "'f trace \<Rightarrow> request \<Rightarrow> 'f reply"

section \<open>Transport layer: \<^verbatim>\<open>wb_get_json\<close>\<close>

text \<open>
  \<^verbatim>\<open>time.sleep(min(0.8 * (2 ** (attempt - 1)), 6))\<close>, in milliseconds.
\<close>

definition backoff_ms :: "nat \<Rightarrow> nat" where
  "backoff_ms attempt = min (800 * 2 ^ (attempt - 1)) 6000"

text \<open>\<^verbatim>\<open>r.status_code in (429, 500, 502, 503, 504)\<close>\<close>

definition retryable :: "int \<Rightarrow> bool" where
  "retryable sc = (sc = 429 \<or> sc = 500 \<or> sc = 502 \<or> sc = 503 \<or> sc = 504)"

text \<open>
  \<^verbatim>\<open>r.raise_for_status()\<close> of \<^verbatim>\<open>requests\<close>: an \<open>HTTPError\<close> for a status from 400 to
  599, nothing otherwise.
\<close>

definition raise_for_status :: "int \<Rightarrow> exn option" where
  "raise_for_status sc = (if 400 \<le> sc \<and> sc < 600 then Some (HTTPError sc) else None)"

text \<open>
  The body of \<^verbatim>\<open>for attempt in range(1, 3)\<close>, over the attempts still to make. The
  \<^verbatim>\<open>try\<close> block covers the request, the decoding and \<^verbatim>\<open>raise_for_status\<close>, and
  \<^verbatim>\<open>except Exception\<close> stores the exception, sleeps and lets the loop go on. The
  branch of the retryable statuses sleeps and continues without storing anything. A
  status that is neither 200 nor retryable nor an error for \<^verbatim>\<open>raise_for_status\<close>
  falls out of the \<^verbatim>\<open>try\<close> and the loop goes on at once. After the loop,
  \<^verbatim>\<open>RuntimeError\<close> is raised with \<^verbatim>\<open>last_err\<close>.
\<close>

fun wb_get_json_loop ::
  "'f transport \<Rightarrow> request \<Rightarrow> nat list \<Rightarrow> exn option \<Rightarrow> 'f trace
    \<Rightarrow> (exn + 'f json) \<times> 'f trace" where
  "wb_get_json_loop tr rq [] last_err t = (Inl (RuntimeError last_err), t)"
| "wb_get_json_loop tr rq (attempt # rest) last_err t =
    (case tr t rq of
       Raised e \<Rightarrow>
         wb_get_json_loop tr rq rest (Some e) (t @ [Get rq, Sleep (backoff_ms attempt)])
     | Response sc body \<Rightarrow>
         if sc = 200 then
           (case body of
              Some j \<Rightarrow> (Inr j, t @ [Get rq])
            | None \<Rightarrow>
                wb_get_json_loop tr rq rest (Some JSONDecodeError)
                  (t @ [Get rq, Sleep (backoff_ms attempt)]))
         else if retryable sc then
           wb_get_json_loop tr rq rest last_err (t @ [Get rq, Sleep (backoff_ms attempt)])
         else
           (case raise_for_status sc of
              Some e \<Rightarrow>
                wb_get_json_loop tr rq rest (Some e)
                  (t @ [Get rq, Sleep (backoff_ms attempt)])
            | None \<Rightarrow> wb_get_json_loop tr rq rest last_err (t @ [Get rq])))"

definition wb_get_json ::
  "'f transport \<Rightarrow> string \<Rightarrow> (string \<times> pval) list \<Rightarrow> 'f trace
    \<Rightarrow> (exn + 'f json) \<times> 'f trace" where
  "wb_get_json tr u ps t =
     wb_get_json_loop tr \<lparr>url = u, params = ps, timeout_s = 60\<rparr> [1, 2] None t"

text \<open>The number of HTTP requests in a trace.\<close>

fun is_Get :: "'f event \<Rightarrow> bool" where
  "is_Get (Get _) = True"
| "is_Get _ = False"

definition attempts_made :: "'f trace \<Rightarrow> nat" where
  "attempts_made t = length (filter is_Get t)"

section \<open>Python built-ins used by the module\<close>

text \<open>
  The parts of Python and pandas that read floats and parse or print numbers are taken
  as parameters; every theorem holds for any choice of them.
  \<^item> \<open>int_of_str s\<close>: \<^verbatim>\<open>int(s)\<close> for a string, \<open>None\<close> where it raises \<^verbatim>\<open>ValueError\<close>;
  \<^item> \<open>int_of_float x\<close>: \<^verbatim>\<open>int(x)\<close> for a float, \<open>None\<close> where it raises (nan, inf);
  \<^item> \<open>float_is_zero x\<close>: \<^verbatim>\<open>not x\<close> for a float;
  \<^item> \<open>float_is_nan x\<close>: whether a float is nan;
  \<^item> \<open>float_of_int i\<close>: \<^verbatim>\<open>float(i)\<close>, the float an integer becomes in a float column;
  \<^item> \<open>numeric_of_str s\<close>: what \<^verbatim>\<open>pd.to_numeric\<close> reads in a string, an integer or a
    float; \<open>None\<close> where it reads no number (or reads nan);
  \<^item> \<open>float_as_int x\<close>: the integer a float is equal to, \<open>None\<close> when it is equal to none
    (nan, inf, a fractional part);
  \<^item> \<open>str_of c\<close>: \<^verbatim>\<open>str(c)\<close> for a cell that is neither a string nor missing.
\<close>

record 'f pylib =
  int_of_str :: "string \<Rightarrow> int option"
  int_of_float :: "'f \<Rightarrow> int option"
  float_is_zero :: "'f \<Rightarrow> bool"
  float_is_nan :: "'f \<Rightarrow> bool"
  float_of_int :: "int \<Rightarrow> 'f"
  numeric_of_str :: "string \<Rightarrow> (int + 'f) option"
  float_as_int :: "'f \<Rightarrow> int option"
  str_of :: "'f cell \<Rightarrow> string"

text \<open>Truthiness: \<^verbatim>\<open>not items\<close> is \<open>\<not> truthy L items\<close>.\<close>

fun truthy :: "'f pylib \<Rightarrow> 'f json \<Rightarrow> bool" where
  "truthy L JNull = False"
| "truthy L (JBool b) = b"
| "truthy L (JInt i) = (i \<noteq> 0)"
| "truthy L (JFloat x) = (\<not> float_is_zero L x)"
| "truthy L (JStr s) = (s \<noteq> [])"
| "truthy L (JArr xs) = (xs \<noteq> [])"
| "truthy L (JObj kvs) = (kvs \<noteq> [])"

text \<open>
  What \<^verbatim>\<open>rows.extend(v)\<close> appends: the elements of a list, the keys of a dict, the
  characters of a string; anything else is not iterable.
\<close>

fun py_iter :: "'f json \<Rightarrow> exn + 'f json list" where
  "py_iter (JArr xs) = Inr xs"
| "py_iter (JObj kvs) = Inr (map (\<lambda>kv. JStr (fst kv)) kvs)"
| "py_iter (JStr s) = Inr (map (\<lambda>c. JStr [c]) s)"
| "py_iter _ = Inl TypeError"

text \<open>\<^verbatim>\<open>int(v)\<close>\<close>

fun py_int :: "'f pylib \<Rightarrow> 'f json \<Rightarrow> exn + int" where
  "py_int L (JInt i) = Inr i"
| "py_int L (JBool b) = Inr (if b then 1 else 0)"
| "py_int L (JFloat x) = (case int_of_float L x of Some i \<Rightarrow> Inr i | None \<Rightarrow> Inl ValueError)"
| "py_int L (JStr s) = (case int_of_str L s of Some i \<Rightarrow> Inr i | None \<Rightarrow> Inl ValueError)"
| "py_int L _ = Inl TypeError"

text \<open>
  \<^verbatim>\<open>v[i]\<close> for an integer \<open>i \<ge> 0\<close>. The keys of a decoded dict are strings, so an
  integer is never one of them (the \<open>KeyError\<close> does not record which integer).
\<close>

fun py_index :: "'f json \<Rightarrow> nat \<Rightarrow> exn + 'f json" where
  "py_index (JArr xs) i = (if i < length xs then Inr (xs ! i) else Inl IndexError)"
| "py_index (JStr s) i = (if i < length s then Inr (JStr [s ! i]) else Inl IndexError)"
| "py_index (JObj kvs) i = Inl (KeyError ''0'')"
| "py_index _ i = Inl TypeError"

text \<open>\<^verbatim>\<open>v[k]\<close> for a string \<open>k\<close>\<close>

fun py_item :: "'f json \<Rightarrow> string \<Rightarrow> exn + 'f json" where
  "py_item (JObj kvs) k = (case map_of kvs k of Some v \<Rightarrow> Inr v | None \<Rightarrow> Inl (KeyError k))"
| "py_item _ k = Inl TypeError"

text \<open>\<^verbatim>\<open>v.get(k, d)\<close>: only a dict has \<^verbatim>\<open>get\<close>.\<close>

fun py_get :: "'f json \<Rightarrow> string \<Rightarrow> 'f json \<Rightarrow> exn + 'f json" where
  "py_get (JObj kvs) k d = Inr (case map_of kvs k of Some v \<Rightarrow> v | None \<Rightarrow> d)"
| "py_get _ k d = Inl AttributeError"

text \<open>\<^verbatim>\<open>str(i)\<close> for an integer, as the f-strings of the module use it.\<close>

fun digits10 :: "nat \<Rightarrow> string" where
  "digits10 n =
     (if n < 10 then [''0123456789'' ! n]
      else digits10 (n div 10) @ [''0123456789'' ! (n mod 10)])"

definition str_int :: "int \<Rightarrow> string" where
  "str_int i = (if i < 0 then CHR ''-'' # digits10 (nat (- i)) else digits10 (nat i))"

text \<open>\<^verbatim>\<open>sep.join(xs)\<close>\<close>

fun join :: "string \<Rightarrow> string list \<Rightarrow> string" where
  "join sep [] = []"
| "join sep [x] = x"
| "join sep (x # y # ys) = x @ sep @ join sep (y # ys)"

text \<open>\<^verbatim>\<open>a >= b\<close> on two results of \<^verbatim>\<open>int\<close>, the left one evaluated first.\<close>

definition ge_ints :: "exn + int \<Rightarrow> exn + int \<Rightarrow> exn + bool" where
  "ge_ints a b =
     (case a of
        Inl e \<Rightarrow> Inl e
      | Inr x \<Rightarrow> (case b of Inl e \<Rightarrow> Inl e | Inr y \<Rightarrow> Inr (x \<ge> y)))"

section \<open>Pagination\<close>

definition WB_BASE :: string where
  "WB_BASE = ''https://api.worldbank.org/v2''"

text \<open>The request of one turn of the loop of \<^verbatim>\<open>fetch_indicators_long\<close>.\<close>

definition indicators_url :: "string list \<Rightarrow> string" where
  "indicators_url indicator_codes =
     WB_BASE @ ''/country/all/indicator/'' @ join '';'' indicator_codes"

definition indicators_params :: "int \<Rightarrow> int \<Rightarrow> int \<Rightarrow> (string \<times> pval) list" where
  "indicators_params start_year end_year page =
     [(''format'', PStr ''json''),
      (''source'', PInt 2),
      (''date'', PStr (str_int start_year @ '':'' @ str_int end_year)),
      (''per_page'', PInt 20000),
      (''page'', PInt page)]"

text \<open>
  \<^verbatim>\<open>meta = data[0] if isinstance(data, list) and len(data) > 0 else {}\<close> and
  \<^verbatim>\<open>items = data[1] if isinstance(data, list) and len(data) > 1 else []\<close>
\<close>

fun meta_or_empty :: "'f json \<Rightarrow> 'f json" where
  "meta_or_empty (JArr (m # _)) = m"
| "meta_or_empty _ = JObj []"

fun items_or_empty :: "'f json \<Rightarrow> 'f json" where
  "items_or_empty (JArr (_ # i # _)) = i"
| "items_or_empty _ = JArr []"

text \<open>\<^verbatim>\<open>int(meta.get("page", 1)) >= int(meta.get("pages", 1))\<close>\<close>

definition last_page_get :: "'f pylib \<Rightarrow> 'f json \<Rightarrow> exn + bool" where
  "last_page_get L meta =
     (case py_get meta ''page'' (JInt 1) of
        Inl e \<Rightarrow> Inl e
      | Inr p \<Rightarrow>
          (case py_int L p of
             Inl e \<Rightarrow> Inl e
           | Inr x \<Rightarrow>
               (case py_get meta ''pages'' (JInt 1) of
                  Inl e \<Rightarrow> Inl e
                | Inr q \<Rightarrow> ge_ints (Inr x) (py_int L q))))"

text \<open>
  The \<^verbatim>\<open>while True\<close> loop of \<^verbatim>\<open>fetch_indicators_long\<close> (lines 55 to 75), from the
  state \<open>(page, rows)\<close>. The result is \<open>None\<close> when the loop never ends; otherwise it is
  the exception raised or the rows collected, with the trace.
\<close>

partial_function (option) fetch_indicators_long_loop ::
  "'f pylib \<Rightarrow> 'f transport \<Rightarrow> int \<Rightarrow> int \<Rightarrow> string list \<Rightarrow> int \<Rightarrow> 'f json list
    \<Rightarrow> 'f trace \<Rightarrow> ((exn + 'f json list) \<times> 'f trace) option" where
  "fetch_indicators_long_loop L tr start_year end_year indicator_codes page rows t =
     (case wb_get_json tr (indicators_url indicator_codes)
             (indicators_params start_year end_year page) t of
        (r, t') \<Rightarrow>
          (case r of
             Inl e \<Rightarrow> Some (Inl e, t')
           | Inr data \<Rightarrow>
               if \<not> truthy L (items_or_empty data) then Some (Inr rows, t')
               else
                 (case py_iter (items_or_empty data) of
                    Inl e \<Rightarrow> Some (Inl e, t')
                  | Inr xs \<Rightarrow>
                      (case last_page_get L (meta_or_empty data) of
                         Inl e \<Rightarrow> Some (Inl e, t')
                       | Inr stop \<Rightarrow>
                           if stop then Some (Inr (rows @ xs), t')
                           else
                             fetch_indicators_long_loop L tr start_year end_year
                               indicator_codes (page + 1) (rows @ xs) t'))))"

text \<open>The request of one turn of the loop of \<^verbatim>\<open>fetch_countries_dim\<close>.\<close>

definition countries_url :: string where
  "countries_url = WB_BASE @ ''/country''"

definition countries_params :: "int \<Rightarrow> (string \<times> pval) list" where
  "countries_params page =
     [(''format'', PStr ''json''), (''per_page'', PInt 400), (''page'', PInt page)]"

text \<open>\<^verbatim>\<open>int(meta["page"]) >= int(meta["pages"])\<close>\<close>

definition last_page_item :: "'f pylib \<Rightarrow> 'f json \<Rightarrow> exn + bool" where
  "last_page_item L meta =
     (case py_item meta ''page'' of
        Inl e \<Rightarrow> Inl e
      | Inr p \<Rightarrow>
          (case py_int L p of
             Inl e \<Rightarrow> Inl e
           | Inr x \<Rightarrow>
               (case py_item meta ''pages'' of
                  Inl e \<Rightarrow> Inl e
                | Inr q \<Rightarrow> ge_ints (Inr x) (py_int L q))))"

text \<open>
  The \<^verbatim>\<open>while True\<close> loop of \<^verbatim>\<open>fetch_countries_dim\<close> (lines 130 to 136):
  \<^verbatim>\<open>meta, items = data[0], data[1]\<close> indexes unconditionally, and the items are
  appended before the page test, with no test on the items.
\<close>

partial_function (option) fetch_countries_dim_loop ::
  "'f pylib \<Rightarrow> 'f transport \<Rightarrow> int \<Rightarrow> 'f json list \<Rightarrow> 'f trace
    \<Rightarrow> ((exn + 'f json list) \<times> 'f trace) option" where
  "fetch_countries_dim_loop L tr page rows t =
     (case wb_get_json tr countries_url (countries_params page) t of
        (r, t') \<Rightarrow>
          (case r of
             Inl e \<Rightarrow> Some (Inl e, t')
           | Inr data \<Rightarrow>
               (case py_index data 0 of
                  Inl e \<Rightarrow> Some (Inl e, t')
                | Inr meta \<Rightarrow>
                    (case py_index data 1 of
                       Inl e \<Rightarrow> Some (Inl e, t')
                     | Inr items \<Rightarrow>
                         (case py_iter items of
                            Inl e \<Rightarrow> Some (Inl e, t')
                          | Inr xs \<Rightarrow>
                              (case last_page_item L meta of
                                 Inl e \<Rightarrow> Some (Inl e, t')
                               | Inr stop \<Rightarrow>
                                   if stop then Some (Inr (rows @ xs), t')
                                   else
                                     fetch_countries_dim_loop L tr (page + 1)
                                       (rows @ xs) t'))))))"

text \<open>
  Mock pages, for stating what a paged collection holds: a page is its metadata object
  and its items, served as the two-element list \<^verbatim>\<open>[metadata, items]\<close>. \<open>reports_last m\<close>
  reads the integers under \<^verbatim>\<open>page\<close> and \<^verbatim>\<open>pages\<close> and says whether \<^verbatim>\<open>page >= pages\<close>.
\<close>

definition page_json :: "(string \<times> 'f json) list \<times> 'f json list \<Rightarrow> 'f json" where
  "page_json pg = JArr [JObj (fst pg), JArr (snd pg)]"

definition reports_last :: "(string \<times> 'f json) list \<Rightarrow> bool option" where
  "reports_last m =
     (case map_of m ''page'' of
        Some (JInt p) \<Rightarrow>
          (case map_of m ''pages'' of Some (JInt n) \<Rightarrow> Some (p \<ge> n) | _ \<Rightarrow> None)
      | _ \<Rightarrow> None)"

definition countries_request :: "int \<Rightarrow> request" where
  "countries_request page =
     \<lparr>url = countries_url, params = countries_params page, timeout_s = 60\<rparr>"

definition indicators_request :: "int \<Rightarrow> int \<Rightarrow> string list \<Rightarrow> int \<Rightarrow> request" where
  "indicators_request start_year end_year indicator_codes page =
     \<lparr>url = indicators_url indicator_codes,
      params = indicators_params start_year end_year page, timeout_s = 60\<rparr>"

section \<open>The pandas operations of the module\<close>

text \<open>
  A frame has no index: \<^verbatim>\<open>reset_index(drop=True)\<close> and \<^verbatim>\<open>copy()\<close> change nothing here.
  Integers are Python's, unbounded; the signed 64-bit range of an integer column is
  checked where pandas checks it.
\<close>

definition in_int64 :: "int \<Rightarrow> bool" where
  "in_int64 i = (- (2 ^ 63) \<le> i \<and> i < 2 ^ 63)"

text \<open>
  The cell a decoded JSON value gives: \<^verbatim>\<open>None\<close> and a float nan (which \<^verbatim>\<open>r.json()\<close>
  reads from the literal \<^verbatim>\<open>NaN\<close>) are missing.
\<close>

fun cell_of_json :: "'f pylib \<Rightarrow> 'f json \<Rightarrow> 'f cell" where
  "cell_of_json L JNull = NaN"
| "cell_of_json L (JFloat x) = (if float_is_nan L x then NaN else Val (JFloat x))"
| "cell_of_json L v = Val v"

text \<open>\<^verbatim>\<open>pd.isna\<close> on a cell\<close>

fun isna :: "'f pylib \<Rightarrow> 'f cell \<Rightarrow> bool" where
  "isna L NaN = True"
| "isna L (Val JNull) = True"
| "isna L (Val (JFloat x)) = float_is_nan L x"
| "isna L _ = False"

text \<open>The cell of a row under a label; \<open>NaN\<close> when the row has no such label.\<close>

definition cell_at :: "'f row \<Rightarrow> string \<Rightarrow> 'f cell" where
  "cell_at r c = (case map_of r c of Some x \<Rightarrow> x | None \<Rightarrow> NaN)"

text \<open>\<^verbatim>\<open>d[k] = v\<close> on a dict kept in insertion order\<close>

fun dict_set :: "(string \<times> 'a) list \<Rightarrow> string \<Rightarrow> 'a \<Rightarrow> (string \<times> 'a) list" where
  "dict_set [] k v = [(k, v)]"
| "dict_set (kv # d) k v = (if fst kv = k then (k, v) # d else kv # dict_set d k v)"

definition dict_update :: "(string \<times> 'a) list \<Rightarrow> (string \<times> 'a) list \<Rightarrow> (string \<times> 'a) list" where
  "dict_update d kvs = foldl (\<lambda>acc kv. dict_set acc (fst kv) (snd kv)) d kvs"

fun is_dict :: "'f json \<Rightarrow> bool" where
  "is_dict (JObj _) = True"
| "is_dict _ = False"

fun is_list :: "'f json \<Rightarrow> bool" where
  "is_list (JArr _) = True"
| "is_list _ = False"

text \<open>
  \<^verbatim>\<open>pd.json_normalize\<close> with default arguments flattens each record with pandas'
  \<^verbatim>\<open>_normalise_json\<close>: a nested dict is walked depth first and each leaf is stored under
  the keys of its path joined by dots. \<open>assignments\<close> lists the stores in order.
\<close>

definition new_key :: "string \<Rightarrow> string \<Rightarrow> string" where
  "new_key key_string k = (if key_string = [] then k else key_string @ ''.'' @ k)"

fun assignments :: "string \<Rightarrow> 'f json \<Rightarrow> (string \<times> 'f json) list" where
  "assignments key_string (JObj kvs) =
     concat (map (\<lambda>kv. assignments (new_key key_string (fst kv)) (snd kv)) kvs)"
| "assignments key_string v = [(key_string, v)]"

text \<open>
  \<^verbatim>\<open>_normalise_json_ordered\<close>: the entries that are not dicts first, then the flattened
  dict-valued entries merged over them.
\<close>

definition normalise_json_ordered :: "(string \<times> 'f json) list \<Rightarrow> (string \<times> 'f json) list" where
  "normalise_json_ordered d =
     dict_update (filter (\<lambda>kv. \<not> is_dict (snd kv)) d)
       (dict_update [] (assignments [] (JObj (filter (\<lambda>kv. is_dict (snd kv)) d))))"

text \<open>
  \<^verbatim>\<open>_simple_json_normalize\<close> on one element of the list: a dict is flattened, a scalar
  gives the empty record. (A list element is excluded by \<open>json_normalize\<close> below.)
\<close>

fun simple_json_normalize :: "'f json \<Rightarrow> (string \<times> 'f json) list" where
  "simple_json_normalize (JObj d) = normalise_json_ordered d"
| "simple_json_normalize _ = []"

text \<open>The elements of a list in the order of their first occurrence.\<close>

fun first_seen :: "'a list \<Rightarrow> 'a list" where
  "first_seen [] = []"
| "first_seen (x # xs) = x # filter (\<lambda>y. y \<noteq> x) (first_seen xs)"

text \<open>The kinds of cells a numeric column is made of.\<close>

fun is_int_cell :: "'f cell \<Rightarrow> bool" where
  "is_int_cell (Val (JInt _)) = True"
| "is_int_cell _ = False"

fun is_float_cell :: "'f cell \<Rightarrow> bool" where
  "is_float_cell (Val (JFloat _)) = True"
| "is_float_cell _ = False"

text \<open>
  A cell as it stands in a float column, and in an integer column: an integer becomes
  \<^verbatim>\<open>float(i)\<close>, a boolean 1 or 0.
\<close>

fun as_float :: "'f pylib \<Rightarrow> 'f cell \<Rightarrow> 'f cell" where
  "as_float L (Val (JInt i)) = Val (JFloat (float_of_int L i))"
| "as_float L (Val (JBool b)) = Val (JFloat (float_of_int L (if b then 1 else 0)))"
| "as_float L c = c"

fun as_int :: "'f cell \<Rightarrow> 'f cell" where
  "as_int (Val (JBool b)) = Val (JInt (if b then 1 else 0))"
| "as_int c = c"

text \<open>
  The dtype a column gets when a frame is built from records: a column of integers,
  floats and missing cells only, with an integer and with a float or a missing cell, is
  a float column and its integers become floats. Any other column keeps its values (a
  column of integers, of floats, of booleans, or an object column).
\<close>

definition infer_column :: "'f pylib \<Rightarrow> 'f cell list \<Rightarrow> 'f cell list" where
  "infer_column L xs =
     (if list_all (\<lambda>c. c = NaN \<or> is_int_cell c \<or> is_float_cell c) xs
         \<and> list_ex is_int_cell xs
         \<and> list_ex (\<lambda>c. c = NaN \<or> is_float_cell c) xs
      then map (as_float L) xs
      else xs)"

text \<open>
  \<^verbatim>\<open>DataFrame(records)\<close> for a list of dicts: the columns are the keys in the order of
  their first occurrence, a record without a key is missing there, and each column gets
  its dtype.
\<close>

definition column_of :: "'f pylib \<Rightarrow> (string \<times> 'f json) list list \<Rightarrow> string \<Rightarrow> 'f cell list" where
  "column_of L recs c =
     infer_column L
       (map (\<lambda>r. case map_of r c of Some v \<Rightarrow> cell_of_json L v | None \<Rightarrow> NaN) recs)"

definition DataFrame :: "'f pylib \<Rightarrow> (string \<times> 'f json) list list \<Rightarrow> 'f frame" where
  "DataFrame L recs =
     \<lparr>columns = first_seen (concat (map (map fst) recs)),
      data_rows =
        map (\<lambda>i. map (\<lambda>c. (c, column_of L recs c ! i))
                     (first_seen (concat (map (map fst) recs))))
            [0..<length recs]\<rparr>"

fun big_int :: "'f json \<Rightarrow> bool" where
  "big_int (JInt i) = (\<not> in_int64 i)"
| "big_int _ = False"

text \<open>
  \<^verbatim>\<open>pd.json_normalize(rows)\<close>: the empty list gives the frame with no columns and no
  rows. Two cases are left out: a list among the rows, and an integer outside the signed
  64-bit range as a field of a record (pandas then chooses between an unsigned, a float
  and an object column by the order of the cells).
\<close>

definition json_normalize :: "'f pylib \<Rightarrow> 'f json list \<Rightarrow> exn + 'f frame" where
  "json_normalize L rows =
     (if rows = [] then Inr \<lparr>columns = [], data_rows = []\<rparr>
      else if list_ex is_list rows then Inl Unmodelled
      else if list_ex (\<lambda>r. list_ex (\<lambda>kv. big_int (snd kv)) (simple_json_normalize r)) rows
      then Inl Unmodelled
      else Inr (DataFrame L (map simple_json_normalize rows)))"

text \<open>\<^verbatim>\<open>df.rename(columns=m)\<close>\<close>

definition renamed :: "(string \<times> string) list \<Rightarrow> string \<Rightarrow> string" where
  "renamed m c = (case map_of m c of Some c' \<Rightarrow> c' | None \<Rightarrow> c)"

definition rename :: "(string \<times> string) list \<Rightarrow> 'f frame \<Rightarrow> 'f frame" where
  "rename m df =
     \<lparr>columns = map (renamed m) (columns df),
      data_rows = map (map (\<lambda>kx. (renamed m (fst kx), snd kx))) (data_rows df)\<rparr>"

text \<open>
  \<^verbatim>\<open>df[[c1, ..., cn]]\<close>: a \<open>KeyError\<close> when a label is not a column. When a label names two
  columns pandas returns both; that case is left out.
\<close>

definition select_columns :: "string list \<Rightarrow> 'f frame \<Rightarrow> exn + 'f frame" where
  "select_columns cs df =
     (case filter (\<lambda>c. c \<notin> set (columns df)) cs of
        c # _ \<Rightarrow> Inl (KeyError c)
      | [] \<Rightarrow>
          if list_ex (\<lambda>c. 1 < count_list (columns df) c) cs then Inl Unmodelled
          else Inr \<lparr>columns = cs,
                    data_rows = map (\<lambda>r. map (\<lambda>c. (c, cell_at r c)) cs) (data_rows df)\<rparr>)"

text \<open>\<^verbatim>\<open>df[c]\<close>: one column as a series.\<close>

definition series :: "'f frame \<Rightarrow> string \<Rightarrow> exn + 'f cell list" where
  "series df c =
     (if c \<notin> set (columns df) then Inl (KeyError c)
      else if 1 < count_list (columns df) c then Inl Unmodelled
      else Inr (map (\<lambda>r. cell_at r c) (data_rows df)))"

text \<open>\<^verbatim>\<open>df[mask]\<close> for a boolean series over the rows\<close>

definition mask_rows :: "bool list \<Rightarrow> 'f frame \<Rightarrow> 'f frame" where
  "mask_rows keep df =
     \<lparr>columns = columns df,
      data_rows = map snd (filter fst (zip keep (data_rows df)))\<rparr>"

text \<open>
  What \<^verbatim>\<open>pd.to_numeric(..., errors="coerce")\<close> reads in one cell: a number or a boolean
  stays, a string is parsed, and whatever is no number is missing. (A \<^verbatim>\<open>datetime\<close> never
  gets here: the stamps are assigned after the fetches.)
\<close>

fun coerce :: "'f pylib \<Rightarrow> 'f cell \<Rightarrow> 'f cell" where
  "coerce L (Val (JInt i)) = Val (JInt i)"
| "coerce L (Val (JFloat x)) = Val (JFloat x)"
| "coerce L (Val (JBool b)) = Val (JBool b)"
| "coerce L (Val (JStr s)) =
     (case numeric_of_str L s of
        Some (Inl i) \<Rightarrow> Val (JInt i)
      | Some (Inr x) \<Rightarrow> Val (JFloat x)
      | None \<Rightarrow> NaN)"
| "coerce L _ = NaN"

definition int_cells :: "'f cell list \<Rightarrow> int list" where
  "int_cells xs = concat (map (\<lambda>c. case c of Val (JInt i) \<Rightarrow> [i] | _ \<Rightarrow> []) xs)"

text \<open>
  Whether the cells read make a float column: a float or a missing cell among them, an
  integer outside both 64-bit ranges, or an integer above the signed range beside a
  negative one.
\<close>

definition float_column :: "'f cell list \<Rightarrow> bool" where
  "float_column ys =
     (list_ex (\<lambda>c. c = NaN \<or> is_float_cell c) ys
      \<or> list_ex (\<lambda>i. i < - (2 ^ 63) \<or> 2 ^ 64 \<le> i) (int_cells ys)
      \<or> (list_ex (\<lambda>i. 2 ^ 63 \<le> i) (int_cells ys) \<and> list_ex (\<lambda>i. i < 0) (int_cells ys)))"

text \<open>
  \<^verbatim>\<open>pd.to_numeric(column, errors="coerce")\<close>: the cells are read one by one and the
  column gets one dtype: float, else integer when there is an integer, else the
  booleans stay booleans.
\<close>

definition to_numeric :: "'f pylib \<Rightarrow> 'f cell list \<Rightarrow> 'f cell list" where
  "to_numeric L xs =
     (if float_column (map (coerce L) xs) then map (\<lambda>x. as_float L (coerce L x)) xs
      else if list_ex is_int_cell (map (coerce L) xs) then map (\<lambda>x. as_int (coerce L x)) xs
      else map (coerce L) xs)"

text \<open>
  \<^verbatim>\<open>.astype("Int64")\<close> on one cell of a numeric column: a missing cell and a float nan
  become \<^verbatim>\<open>NA\<close>; an integer outside the signed 64-bit range, a float with a fractional
  part or beyond that range, and inf make the cast raise \<open>TypeError\<close>.
\<close>

fun astype_Int64 :: "'f pylib \<Rightarrow> 'f cell \<Rightarrow> exn + 'f cell" where
  "astype_Int64 L NaN = Inr NaN"
| "astype_Int64 L (Val (JInt i)) = (if in_int64 i then Inr (Val (JInt i)) else Inl TypeError)"
| "astype_Int64 L (Val (JBool b)) = Inr (Val (JInt (if b then 1 else 0)))"
| "astype_Int64 L (Val (JFloat x)) =
     (if float_is_nan L x then Inr NaN
      else
        (case float_as_int L x of
           Some k \<Rightarrow> if in_int64 k then Inr (Val (JInt k)) else Inl TypeError
         | None \<Rightarrow> Inl TypeError))"
| "astype_Int64 L _ = Inl Unmodelled"

text \<open>
  \<^verbatim>\<open>.astype(str)\<close> on one cell. For a missing cell the result is \<open>None\<close>: pandas gives
  \<^verbatim>\<open>'nan'\<close> or \<^verbatim>\<open>'None'\<close> or leaves the cell missing, by the dtype and the version.
\<close>

fun astype_str :: "'f pylib \<Rightarrow> 'f cell \<Rightarrow> string option" where
  "astype_str L NaN = None"
| "astype_str L (Val (JStr s)) = Some s"
| "astype_str L c = Some (str_of L c)"

text \<open>All results of a list, or the first exception.\<close>

fun collect :: "(exn + 'a) list \<Rightarrow> exn + 'a list" where
  "collect [] = Inr []"
| "collect (x # xs) =
     (case x of
        Inl e \<Rightarrow> Inl e
      | Inr v \<Rightarrow> (case collect xs of Inl e \<Rightarrow> Inl e | Inr vs \<Rightarrow> Inr (v # vs)))"

text \<open>\<^verbatim>\<open>df[c] = series\<close> for an existing column \<open>c\<close>, one new cell per row.\<close>

definition put_cell :: "string \<Rightarrow> 'f cell \<Rightarrow> 'f row \<Rightarrow> 'f row" where
  "put_cell c x r = map (\<lambda>kx. if fst kx = c then (c, x) else kx) r"

definition set_column :: "string \<Rightarrow> 'f cell list \<Rightarrow> 'f frame \<Rightarrow> 'f frame" where
  "set_column c xs df =
     \<lparr>columns = columns df,
      data_rows = map (\<lambda>xr. put_cell c (fst xr) (snd xr)) (zip xs (data_rows df))\<rparr>"

text \<open>
  \<^verbatim>\<open>df[c] = v\<close> for a scalar \<open>v\<close>: the same cell in every row, in the column \<open>c\<close> or in
  a new last column.
\<close>

definition assign_scalar :: "string \<Rightarrow> 'f cell \<Rightarrow> 'f frame \<Rightarrow> 'f frame" where
  "assign_scalar c v df =
     (if c \<in> set (columns df)
      then \<lparr>columns = columns df, data_rows = map (put_cell c v) (data_rows df)\<rparr>
      else \<lparr>columns = columns df @ [c],
            data_rows = map (\<lambda>r. r @ [(c, v)]) (data_rows df)\<rparr>)"

text \<open>\<^verbatim>\<open>df.dropna(subset=cs)\<close> for labels that are columns of the frame\<close>

definition dropna :: "'f pylib \<Rightarrow> string list \<Rightarrow> 'f frame \<Rightarrow> 'f frame" where
  "dropna L cs df =
     \<lparr>columns = columns df,
      data_rows = filter (\<lambda>r. \<not> list_ex (\<lambda>c. isna L (cell_at r c)) cs) (data_rows df)\<rparr>"

section \<open>The two normalisers\<close>

definition indicator_rename :: "(string \<times> string) list" where
  "indicator_rename =
     [(''countryiso3code'', ''country_iso3''),
      (''country.value'', ''country_name''),
      (''date'', ''year''),
      (''indicator.id'', ''indicator_code''),
      (''indicator.value'', ''indicator_name''),
      (''value'', ''value'')]"

definition indicator_columns :: "string list" where
  "indicator_columns =
     [''country_iso3'', ''country_name'', ''year'', ''indicator_code'', ''indicator_name'',
      ''value'']"

text \<open>
  Lines 77 to 97 of \<^verbatim>\<open>fetch_indicators_long\<close>, on the rows the loop collected:
  normalise, rename, select the six columns, coerce \<^verbatim>\<open>year\<close> and cast it to
  \<^verbatim>\<open>Int64\<close>, coerce \<^verbatim>\<open>value\<close>, drop the rows with a missing key field.
\<close>

definition indicators_frame :: "'f pylib \<Rightarrow> 'f json list \<Rightarrow> exn + 'f frame" where
  "indicators_frame L rows =
     (case json_normalize L rows of
        Inl e \<Rightarrow> Inl e
      | Inr df0 \<Rightarrow>
          (case select_columns indicator_columns (rename indicator_rename df0) of
             Inl e \<Rightarrow> Inl e
           | Inr df \<Rightarrow>
               (case collect (map (astype_Int64 L)
                                 (to_numeric L (map (\<lambda>r. cell_at r ''year'') (data_rows df)))) of
                  Inl e \<Rightarrow> Inl e
                | Inr years \<Rightarrow>
                    Inr (dropna L [''country_iso3'', ''year'', ''indicator_code'']
                          (set_column ''value''
                             (to_numeric L
                                (map (\<lambda>r. cell_at r ''value'')
                                   (data_rows (set_column ''year'' years df))))
                             (set_column ''year'' years df))))))"

definition fetch_indicators_long ::
  "'f pylib \<Rightarrow> 'f transport \<Rightarrow> int \<Rightarrow> int \<Rightarrow> string list \<Rightarrow> 'f trace
    \<Rightarrow> ((exn + 'f frame) \<times> 'f trace) option" where
  "fetch_indicators_long L tr start_year end_year indicator_codes t =
     (case fetch_indicators_long_loop L tr start_year end_year indicator_codes 1 [] t of
        None \<Rightarrow> None
      | Some (r, t') \<Rightarrow>
          (case r of
             Inl e \<Rightarrow> Some (Inl e, t')
           | Inr rows \<Rightarrow> Some (indicators_frame L rows, t')))"

definition keep_cols :: "(string \<times> string) list" where
  "keep_cols =
     [(''id'', ''country_iso3''),
      (''iso2Code'', ''country_iso2''),
      (''name'', ''country_name''),
      (''region.value'', ''region''),
      (''incomeLevel.value'', ''income_level''),
      (''lendingType.value'', ''lending_type''),
      (''capitalCity'', ''capital_city''),
      (''latitude'', ''capital_lat''),
      (''longitude'', ''capital_lon'')]"

text \<open>
  Lines 138 to 160 of \<^verbatim>\<open>fetch_countries_dim\<close>: normalise, keep the rows whose
  \<^verbatim>\<open>region.id\<close> as a string is not \<^verbatim>\<open>"NA"\<close>, select and rename the nine columns, coerce
  latitude and longitude.
\<close>

definition countries_frame :: "'f pylib \<Rightarrow> 'f json list \<Rightarrow> exn + 'f frame" where
  "countries_frame L rows =
     (case json_normalize L rows of
        Inl e \<Rightarrow> Inl e
      | Inr df0 \<Rightarrow>
          (case series df0 ''region.id'' of
             Inl e \<Rightarrow> Inl e
           | Inr region_id \<Rightarrow>
               (case select_columns (map fst keep_cols)
                       (mask_rows (map (\<lambda>c. astype_str L c \<noteq> Some ''NA'') region_id) df0) of
                  Inl e \<Rightarrow> Inl e
                | Inr df1 \<Rightarrow>
                    Inr (set_column ''capital_lon''
                          (to_numeric L
                             (map (\<lambda>r. cell_at r ''capital_lon'')
                                (data_rows (set_column ''capital_lat''
                                   (to_numeric L
                                      (map (\<lambda>r. cell_at r ''capital_lat'')
                                         (data_rows (rename keep_cols df1))))
                                   (rename keep_cols df1)))))
                          (set_column ''capital_lat''
                             (to_numeric L
                                (map (\<lambda>r. cell_at r ''capital_lat'')
                                   (data_rows (rename keep_cols df1))))
                             (rename keep_cols df1))))))"

definition fetch_countries_dim ::
  "'f pylib \<Rightarrow> 'f transport \<Rightarrow> 'f trace \<Rightarrow> ((exn + 'f frame) \<times> 'f trace) option" where
  "fetch_countries_dim L tr t =
     (case fetch_countries_dim_loop L tr 1 [] t of
        None \<Rightarrow> None
      | Some (r, t') \<Rightarrow>
          (case r of
             Inl e \<Rightarrow> Some (Inl e, t')
           | Inr rows \<Rightarrow> Some (countries_frame L rows, t')))"

section \<open>Warehouse and entry point\<close>

text \<open>
  The outside of the process: the HTTP transport, the environment after
  \<^verbatim>\<open>load_dotenv()\<close>, the values \<^verbatim>\<open>uuid.uuid4()\<close> and \<^verbatim>\<open>datetime.now(timezone.utc)\<close> return,
  and the exception a BigQuery call raises, if any. Each answers as a function of the
  trace so far (and, for BigQuery, of the call being made).
\<close>

record 'f outside =
  transport :: "'f transport"
  getenv :: "string \<Rightarrow> string option"
  uuid4 :: "'f trace \<Rightarrow> string"
  utcnow :: "'f trace \<Rightarrow> int"
  bq_raises :: "'f trace \<Rightarrow> 'f event \<Rightarrow> exn option"

text \<open>
  The state: the trace and the rows of each warehouse table (\<open>None\<close>: no such table).
\<close>

record 'f world =
  trace :: "'f trace"
  tables :: "string \<Rightarrow> 'f row list option"

definition log :: "'f event \<Rightarrow> 'f world \<Rightarrow> 'f world" where
  "log ev w = w\<lparr>trace := trace w @ [ev]\<rparr>"

definition INDICATORS :: "(string \<times> string) list" where
  "INDICATORS =
     [(''NY.GDP.PCAP.KD.ZG'', ''GDP per capita growth (annual %)''),
      (''NY.GDP.MKTP.KD.ZG'', ''GDP growth (annual %)''),
      (''FP.CPI.TOTL.ZG'', ''Inflation, consumer prices (annual %)''),
      (''GC.DOD.TOTL.GD.ZS'', ''Central government debt, total (% of GDP)''),
      (''DT.DOD.DECT.GN.ZS'', ''External debt stocks (% of GNI)''),
      (''DT.TDS.DECT.EX.ZS'', ''Total debt service (% of exports)''),
      (''FI.RES.TOTL.MO'', ''Total reserves in months of imports''),
      (''SL.UEM.TOTL.ZS'', ''Unemployment, total (% of labor force)''),
      (''NE.TRD.GNFS.ZS'', ''Trade (% of GDP)''),
      (''BX.KLT.DINV.WD.GD.ZS'', ''FDI, net inflows (% of GDP)''),
      (''IT.NET.USER.ZS'', ''Individuals using the Internet (% of population)'')]"

text \<open>
  One pass of the loop of \<^verbatim>\<open>bq_ensure_tables\<close>: \<^verbatim>\<open>get_table\<close> raises when the table does
  not exist (or when the outside says so), and then \<^verbatim>\<open>create_table\<close> is called, which
  raises when the outside says so or the table exists already.
\<close>

definition ensure_table :: "'f outside \<Rightarrow> string \<Rightarrow> 'f world \<Rightarrow> (exn + unit) \<times> 'f world" where
  "ensure_table X name w =
     (if bq_raises X (trace w) (GetTable name) = None \<and> tables w name \<noteq> None
      then (Inr (), log (GetTable name) w)
      else
        (case bq_raises X (trace w @ [GetTable name]) (CreateTable name) of
           Some e \<Rightarrow> (Inl e, log (CreateTable name) (log (GetTable name) w))
         | None \<Rightarrow>
             if tables w name \<noteq> None
             then (Inl (BigQueryError ''Conflict''),
                   log (CreateTable name) (log (GetTable name) w))
             else (Inr (),
                   (log (CreateTable name) (log (GetTable name) w))
                     \<lparr>tables := (tables w)(name \<mapsto> [])\<rparr>)))"

definition ind_table_name :: "string \<Rightarrow> string \<Rightarrow> string" where
  "ind_table_name project_id dataset_id =
     project_id @ ''.'' @ dataset_id @ ''.raw_wb_indicators_long''"

definition cty_table_name :: "string \<Rightarrow> string \<Rightarrow> string" where
  "cty_table_name project_id dataset_id =
     project_id @ ''.'' @ dataset_id @ ''.raw_country_dim''"

text \<open>
  \<^verbatim>\<open>bq_ensure_tables\<close>: the indicator table first, then the country table; it returns the
  two qualified names.
\<close>

definition bq_ensure_tables ::
  "'f outside \<Rightarrow> string \<Rightarrow> string \<Rightarrow> 'f world \<Rightarrow> (exn + string \<times> string) \<times> 'f world" where
  "bq_ensure_tables X project_id dataset_id w =
     (case ensure_table X (ind_table_name project_id dataset_id) w of
        (r1, w1) \<Rightarrow>
          (case r1 of
             Inl e \<Rightarrow> (Inl e, w1)
           | Inr _ \<Rightarrow>
               (case ensure_table X (cty_table_name project_id dataset_id) w1 of
                  (r2, w2) \<Rightarrow>
                    (case r2 of
                       Inl e \<Rightarrow> (Inl e, w2)
                     | Inr _ \<Rightarrow>
                         (Inr (ind_table_name project_id dataset_id,
                               cty_table_name project_id dataset_id), w2)))))"

text \<open>
  \<^verbatim>\<open>bq_append_df\<close>: a load job with \<^verbatim>\<open>WRITE_APPEND\<close>, waited for. When the job fails the
  table is as before; when it succeeds the rows of the frame follow the rows the table
  had.
\<close>

definition bq_append_df :: "'f outside \<Rightarrow> string \<Rightarrow> 'f frame \<Rightarrow> 'f world \<Rightarrow> (exn + unit) \<times> 'f world" where
  "bq_append_df X table_fqn df w =
     (case bq_raises X (trace w) (LoadJob table_fqn df) of
        Some e \<Rightarrow> (Inl e, log (LoadJob table_fqn df) w)
      | None \<Rightarrow>
          (Inr (),
           (log (LoadJob table_fqn df) w)
             \<lparr>tables := (tables w)(table_fqn \<mapsto>
                (case tables w table_fqn of Some old \<Rightarrow> old | None \<Rightarrow> []) @ data_rows df)\<rparr>))"

text \<open>
  Lines 246 and 247 of \<^verbatim>\<open>main\<close>:
  \<^verbatim>\<open>valid_iso3 = set(countries["country_iso3"].dropna().astype(str).tolist())\<close> and
  \<^verbatim>\<open>ind_df[ind_df["country_iso3"].astype(str).isin(valid_iso3)]\<close>.
\<close>

definition valid_iso3_of :: "'f pylib \<Rightarrow> 'f frame \<Rightarrow> exn + string set" where
  "valid_iso3_of L countries =
     (case series countries ''country_iso3'' of
        Inl e \<Rightarrow> Inl e
      | Inr xs \<Rightarrow>
          Inr (set (concat (map (\<lambda>x. case astype_str L x of Some s \<Rightarrow> [s] | None \<Rightarrow> [])
                              (filter (\<lambda>x. \<not> isna L x) xs)))))"

text \<open>
  In \<^verbatim>\<open>main\<close> the codes of the observations have no missing cell (the rows with one were
  dropped by the normaliser); the test of a missing cell against the set is left out.
\<close>

definition keep_valid_iso3 :: "'f pylib \<Rightarrow> string set \<Rightarrow> 'f frame \<Rightarrow> exn + 'f frame" where
  "keep_valid_iso3 L valid_iso3 ind_df =
     (case series ind_df ''country_iso3'' of
        Inl e \<Rightarrow> Inl e
      | Inr xs \<Rightarrow>
          if list_ex (\<lambda>x. astype_str L x = None) xs then Inl Unmodelled
          else
            Inr (mask_rows
                   (map (\<lambda>x. case astype_str L x of Some s \<Rightarrow> s \<in> valid_iso3 | None \<Rightarrow> False)
                      xs)
                   ind_df))"

definition referential_filter :: "'f pylib \<Rightarrow> 'f frame \<Rightarrow> 'f frame \<Rightarrow> exn + 'f frame" where
  "referential_filter L countries ind_df =
     (case valid_iso3_of L countries of
        Inl e \<Rightarrow> Inl e
      | Inr valid_iso3 \<Rightarrow> keep_valid_iso3 L valid_iso3 ind_df)"

text \<open>\<^verbatim>\<open>int(os.getenv(name, dflt))\<close>\<close>

definition getenv_int :: "'f pylib \<Rightarrow> 'f outside \<Rightarrow> string \<Rightarrow> string \<Rightarrow> exn + int" where
  "getenv_int L X name dflt =
     (case int_of_str L (case getenv X name of Some v \<Rightarrow> v | None \<Rightarrow> dflt) of
        Some i \<Rightarrow> Inr i
      | None \<Rightarrow> Inl ValueError)"

text \<open>
  Lines 236 to 257 of \<^verbatim>\<open>main\<close>, once the configuration is read, \<^verbatim>\<open>run_id\<close> and
  \<^verbatim>\<open>load_ts\<close> are taken and the tables exist: fetch and stamp the countries, fetch the
  indicators, filter them, stamp them, append the countries, append the indicators.
  (What \<^verbatim>\<open>print\<close> writes is not modelled.)
\<close>

definition fetch_stamp_load ::
  "'f pylib \<Rightarrow> 'f outside \<Rightarrow> int \<Rightarrow> int \<Rightarrow> string \<Rightarrow> int \<Rightarrow> string \<Rightarrow> string \<Rightarrow> 'f world
    \<Rightarrow> ((exn + unit) \<times> 'f world) option" where
  "fetch_stamp_load L X start_year end_year run_id load_ts ind_table cty_table w =
     (case fetch_countries_dim L (transport X) (trace w) of
        None \<Rightarrow> None
      | Some (r1, t1) \<Rightarrow>
          (case r1 of
             Inl e \<Rightarrow> Some (Inl e, w\<lparr>trace := t1\<rparr>)
           | Inr countries0 \<Rightarrow>
               (let countries = assign_scalar ''run_id'' (Val (JStr run_id))
                                  (assign_scalar ''load_ts'' (Stamp load_ts) countries0)
                in
                  (case fetch_indicators_long L (transport X) start_year end_year
                          (map fst INDICATORS) t1 of
                     None \<Rightarrow> None
                   | Some (r2, t2) \<Rightarrow>
                       (case r2 of
                          Inl e \<Rightarrow> Some (Inl e, w\<lparr>trace := t2\<rparr>)
                        | Inr ind_df0 \<Rightarrow>
                            (case referential_filter L countries ind_df0 of
                               Inl e \<Rightarrow> Some (Inl e, w\<lparr>trace := t2\<rparr>)
                             | Inr ind_df1 \<Rightarrow>
                                 (case bq_append_df X cty_table countries
                                         (w\<lparr>trace := t2\<rparr>) of
                                    (r3, w3) \<Rightarrow>
                                      (case r3 of
                                         Inl e \<Rightarrow> Some (Inl e, w3)
                                       | Inr _ \<Rightarrow>
                                           Some (bq_append_df X ind_table
                                                   (assign_scalar ''run_id''
                                                      (Val (JStr run_id))
                                                      (assign_scalar ''load_ts''
                                                         (Stamp load_ts) ind_df1))
                                                   w3)))))))))"

text \<open>
  \<^verbatim>\<open>main\<close>, lines 215 to 234, and then the rest. \<^verbatim>\<open>not os.getenv(name)\<close> holds for a
  variable that is unset or empty. \<^verbatim>\<open>uuid.uuid4()\<close> is called once and
  \<^verbatim>\<open>datetime.now\<close> once, before the BigQuery client is made.
\<close>

definition main :: "'f pylib \<Rightarrow> 'f outside \<Rightarrow> 'f world \<Rightarrow> ((exn + unit) \<times> 'f world) option" where
  "main L X w =
     (case getenv X ''GCP_PROJECT_ID'' of
        None \<Rightarrow> Some (Inl ValueError, w)
      | Some project_id \<Rightarrow>
          if project_id = [] then Some (Inl ValueError, w)
          else if getenv X ''GOOGLE_APPLICATION_CREDENTIALS'' = None
                  \<or> getenv X ''GOOGLE_APPLICATION_CREDENTIALS'' = Some []
          then Some (Inl ValueError, w)
          else
            (case getenv_int L X ''WB_START_YEAR'' ''2020'' of
               Inl e \<Rightarrow> Some (Inl e, w)
             | Inr start_year \<Rightarrow>
                 (case getenv_int L X ''WB_END_YEAR'' ''2025'' of
                    Inl e \<Rightarrow> Some (Inl e, w)
                  | Inr end_year \<Rightarrow>
                      (case bq_raises X (trace w @ [Uuid4, Now]) (NewClient project_id) of
                         Some e \<Rightarrow>
                           Some (Inl e, log (NewClient project_id) (log Now (log Uuid4 w)))
                       | None \<Rightarrow>
                           (case bq_ensure_tables X project_id
                                   (case getenv X ''BQ_DATASET_RAW'' of
                                      Some d \<Rightarrow> d | None \<Rightarrow> ''wb_raw'')
                                   (log (NewClient project_id) (log Now (log Uuid4 w))) of
                              (r, w1) \<Rightarrow>
                                (case r of
                                   Inl e \<Rightarrow> Some (Inl e, w1)
                                 | Inr names \<Rightarrow>
                                     fetch_stamp_load L X start_year end_year
                                       (uuid4 X (trace w)) (utcnow X (trace w @ [Uuid4]))
                                       (fst names) (snd names) w1))))))"

section \<open>A small instance, for evaluating the model on concrete inputs\<close>

text \<open>
  A library instance without floats (\<open>'f\<close> is \<open>unit\<close>) that reads unsigned decimal
  integers, and a transport that serves a fixed list of page bodies by the \<^verbatim>\<open>page\<close>
  parameter of the request, with status 404 past the last page.
\<close>

fun decimal :: "nat \<Rightarrow> string \<Rightarrow> nat option" where
  "decimal acc [] = Some acc"
| "decimal acc (c # cs) =
     (case map_of [(CHR ''0'', 0), (CHR ''1'', 1), (CHR ''2'', 2), (CHR ''3'', 3),
                   (CHR ''4'', 4), (CHR ''5'', 5), (CHR ''6'', 6), (CHR ''7'', 7),
                   (CHR ''8'', 8), (CHR ''9'', 9)] c of
        None \<Rightarrow> None
      | Some d \<Rightarrow> decimal (10 * acc + d) cs)"

definition decimal_int :: "string \<Rightarrow> int option" where
  "decimal_int s = (if s = [] then None else map_option int (decimal 0 s))"

fun plain_str :: "'f cell \<Rightarrow> string" where
  "plain_str NaN = ''nan''"
| "plain_str (Val JNull) = ''None''"
| "plain_str (Val (JInt i)) = str_int i"
| "plain_str _ = ''?''"

definition plain_lib :: "unit pylib" where
  "plain_lib =
     \<lparr>int_of_str = decimal_int,
      int_of_float = (\<lambda>_. None),
      float_is_zero = (\<lambda>_. False),
      float_is_nan = (\<lambda>_. False),
      float_of_int = (\<lambda>_. ()),
      numeric_of_str = (\<lambda>s. map_option Inl (decimal_int s)),
      float_as_int = (\<lambda>_. None),
      str_of = plain_str\<rparr>"

text \<open>
  A second instance whose floats are the whole numbers: an integer is its own float.
\<close>

definition whole_lib :: "int pylib" where
  "whole_lib =
     \<lparr>int_of_str = decimal_int,
      int_of_float = Some,
      float_is_zero = (\<lambda>x. x = 0),
      float_is_nan = (\<lambda>_. False),
      float_of_int = (\<lambda>i. i),
      numeric_of_str = (\<lambda>s. map_option Inl (decimal_int s)),
      float_as_int = Some,
      str_of = plain_str\<rparr>"

definition serve_pages :: "'f json list \<Rightarrow> 'f transport" where
  "serve_pages bodies t rq =
     (case map_of (params rq) ''page'' of
        Some (PInt k) \<Rightarrow>
          if 1 \<le> k \<and> k \<le> int (length bodies)
          then Response 200 (Some (bodies ! nat (k - 1)))
          else Response 404 None
      | _ \<Rightarrow> Response 400 None)"

definition two_pages :: "((string \<times> unit json) list \<times> unit json list) list" where
  "two_pages =
     [([(''page'', JInt 1), (''pages'', JInt 2)], [JStr ''a'', JStr ''b'']),
      ([(''page'', JInt 2), (''pages'', JInt 2)], [JStr ''c''])]"

section \<open>The normalisers, row by row\<close>

text \<open>
  What the claims say about the normalisers is said of single records. The definitions
  of this section follow those words: the cell a flattened record has under a key, the
  keys that occur in a batch, and for a raw record whether it is kept and the row it
  becomes.
\<close>

definition raw_cell :: "'f pylib \<Rightarrow> (string \<times> 'f json) list \<Rightarrow> string \<Rightarrow> 'f cell" where
  "raw_cell L rec k = (case map_of rec k of Some v \<Rightarrow> cell_of_json L v | None \<Rightarrow> NaN)"

definition flat_keys :: "'f json list \<Rightarrow> string set" where
  "flat_keys rows = set (concat (map (\<lambda>r. map fst (simple_json_normalize r)) rows))"

fun is_str_cell :: "'f cell \<Rightarrow> bool" where
  "is_str_cell (Val (JStr _)) = True"
| "is_str_cell _ = False"

text \<open>A field that is a string or missing, and a record with no integer under given keys.\<close>

definition text_field :: "'f pylib \<Rightarrow> (string \<times> 'f json) list \<Rightarrow> string \<Rightarrow> bool" where
  "text_field L rec k = (raw_cell L rec k = NaN \<or> is_str_cell (raw_cell L rec k))"

definition no_int_field :: "'f pylib \<Rightarrow> string list \<Rightarrow> (string \<times> 'f json) list \<Rightarrow> bool" where
  "no_int_field L ks rec = (\<not> list_ex (\<lambda>k. is_int_cell (raw_cell L rec k)) ks)"

text \<open>No field of a record of the batch is an integer outside the signed 64-bit range.\<close>

definition no_big_int :: "'f json list \<Rightarrow> bool" where
  "no_big_int rows =
     (\<not> list_ex (\<lambda>r. list_ex (\<lambda>kv. big_int (snd kv)) (simple_json_normalize r)) rows)"

text \<open>
  A cell is non-numeric when nothing is read in it (a missing cell is). \<open>year_of\<close> is the
  integer a date is read as, if it is read as one.
\<close>

definition non_numeric :: "'f pylib \<Rightarrow> 'f cell \<Rightarrow> bool" where
  "non_numeric L c = (coerce L c = NaN)"

definition year_of :: "'f pylib \<Rightarrow> 'f cell \<Rightarrow> int option" where
  "year_of L c = (case coerce L c of Val (JInt i) \<Rightarrow> Some i | _ \<Rightarrow> None)"

text \<open>
  An integer that comes back unchanged from a float column, as the integers of
  magnitude up to \<open>2^53\<close> do with 64-bit floats.
\<close>

definition float_exact :: "'f pylib \<Rightarrow> int \<Rightarrow> bool" where
  "float_exact L i =
     (\<not> float_is_nan L (float_of_int L i) \<and> float_as_int L (float_of_int L i) = Some i)"

text \<open>
  A date that is non-numeric, or is read as an integer of the signed 64-bit range that
  comes back unchanged from a float column.
\<close>

definition year_readable :: "'f pylib \<Rightarrow> 'f cell \<Rightarrow> bool" where
  "year_readable L c =
     (non_numeric L c
      \<or> (case year_of L c of Some i \<Rightarrow> in_int64 i \<and> float_exact L i | None \<Rightarrow> False))"

definition year_cell :: "'f pylib \<Rightarrow> 'f cell \<Rightarrow> 'f cell" where
  "year_cell L c = (case year_of L c of Some i \<Rightarrow> Val (JInt i) | None \<Rightarrow> NaN)"

text \<open>
  A raw observation is kept when its \<^verbatim>\<open>countryiso3code\<close> and \<^verbatim>\<open>indicator.id\<close> are not
  missing and its \<^verbatim>\<open>date\<close> is numeric. The row it becomes has the year as an integer,
  the value \<open>v\<close> that the coercion of the value column gives the record, and every other
  field as the record has it.
\<close>

definition obs_kept :: "'f pylib \<Rightarrow> (string \<times> 'f json) list \<Rightarrow> bool" where
  "obs_kept L rec =
     (raw_cell L rec ''countryiso3code'' \<noteq> NaN
      \<and> \<not> non_numeric L (raw_cell L rec ''date'')
      \<and> raw_cell L rec ''indicator.id'' \<noteq> NaN)"

definition obs_row :: "'f pylib \<Rightarrow> (string \<times> 'f json) list \<Rightarrow> 'f cell \<Rightarrow> 'f row" where
  "obs_row L rec v =
     [(''country_iso3'', raw_cell L rec ''countryiso3code''),
      (''country_name'', raw_cell L rec ''country.value''),
      (''year'', year_cell L (raw_cell L rec ''date'')),
      (''indicator_code'', raw_cell L rec ''indicator.id''),
      (''indicator_name'', raw_cell L rec ''indicator.value''),
      (''value'', v)]"

definition obs_name_fields :: "string list" where
  "obs_name_fields =
     [''countryiso3code'', ''country.value'', ''indicator.id'', ''indicator.value'']"

text \<open>
  The raw field behind an output column of the observation table, and the output names
  that are not raw field names as well.
\<close>

definition indicator_source :: "string \<Rightarrow> string" where
  "indicator_source T = renamed (map (\<lambda>st. (snd st, fst st)) indicator_rename) T"

definition output_only_names :: "string set" where
  "output_only_names =
     {''country_iso3'', ''country_name'', ''year'', ''indicator_code'', ''indicator_name''}"

text \<open>
  A frame given by its columns and, for each row key, the cell under each column.
\<close>

definition tabulate :: "string list \<Rightarrow> (string \<Rightarrow> 'i \<Rightarrow> 'f cell) \<Rightarrow> 'i list \<Rightarrow> 'f frame" where
  "tabulate cs g xs = \<lparr>columns = cs, data_rows = map (\<lambda>x. map (\<lambda>c. (c, g c x)) cs) xs\<rparr>"

text \<open>
  The value column of a batch after \<^verbatim>\<open>pd.to_numeric\<close>: the coercion is of the column as a
  whole, so the cell of a record depends on the values of the other records (in a column
  with a missing cell the integers are floats).
\<close>

definition value_column :: "'f pylib \<Rightarrow> (string \<times> 'f json) list list \<Rightarrow> 'f cell list" where
  "value_column L recs = to_numeric L (map (\<lambda>rec. raw_cell L rec ''value'') recs)"

text \<open>
  Four observations: one with a value that is no number, one with a null country code,
  one with a quarterly date, and one complete.
\<close>

definition sample_observations :: "'f json list" where
  "sample_observations =
     [JObj [(''indicator'', JObj [(''id'', JStr ''FP.CPI.TOTL.ZG''), (''value'', JStr ''Inflation'')]),
            (''country'', JObj [(''id'', JStr ''FR''), (''value'', JStr ''France'')]),
            (''countryiso3code'', JStr ''FRA''),
            (''date'', JStr ''2020''),
            (''value'', JStr ''n/a'')],
      JObj [(''indicator'', JObj [(''id'', JStr ''FP.CPI.TOTL.ZG''), (''value'', JStr ''Inflation'')]),
            (''country'', JObj [(''id'', JStr ''XX''), (''value'', JStr ''Nowhere'')]),
            (''countryiso3code'', JNull),
            (''date'', JStr ''2020''),
            (''value'', JInt 3)],
      JObj [(''indicator'', JObj [(''id'', JStr ''FP.CPI.TOTL.ZG''), (''value'', JStr ''Inflation'')]),
            (''country'', JObj [(''id'', JStr ''DE''), (''value'', JStr ''Germany'')]),
            (''countryiso3code'', JStr ''DEU''),
            (''date'', JStr ''2020Q1''),
            (''value'', JInt 4)],
      JObj [(''indicator'', JObj [(''id'', JStr ''FP.CPI.TOTL.ZG''), (''value'', JStr ''Inflation'')]),
            (''country'', JObj [(''id'', JStr ''US''), (''value'', JStr ''United States'')]),
            (''countryiso3code'', JStr ''USA''),
            (''date'', JStr ''2021''),
            (''value'', JInt 5)]]"

text \<open>
  A raw country item is kept when its \<^verbatim>\<open>region.id\<close> is not the string \<^verbatim>\<open>"NA"\<close>; the row it
  becomes has the nine columns under their output names, with the latitude and the
  longitude that the coercion of their columns gives the item.
\<close>

definition cty_kept :: "'f pylib \<Rightarrow> (string \<times> 'f json) list \<Rightarrow> bool" where
  "cty_kept L rec = (raw_cell L rec ''region.id'' \<noteq> Val (JStr ''NA''))"

definition cty_row :: "'f pylib \<Rightarrow> (string \<times> 'f json) list \<Rightarrow> 'f cell \<Rightarrow> 'f cell \<Rightarrow> 'f row" where
  "cty_row L rec lat lon =
     [(''country_iso3'', raw_cell L rec ''id''),
      (''country_iso2'', raw_cell L rec ''iso2Code''),
      (''country_name'', raw_cell L rec ''name''),
      (''region'', raw_cell L rec ''region.value''),
      (''income_level'', raw_cell L rec ''incomeLevel.value''),
      (''lending_type'', raw_cell L rec ''lendingType.value''),
      (''capital_city'', raw_cell L rec ''capitalCity''),
      (''capital_lat'', lat),
      (''capital_lon'', lon)]"

text \<open>
  The latitude or longitude column of the kept items after \<^verbatim>\<open>pd.to_numeric\<close>.
\<close>

definition coordinate_column :: "'f pylib \<Rightarrow> string \<Rightarrow> (string \<times> 'f json) list list \<Rightarrow> 'f cell list" where
  "coordinate_column L k recs = to_numeric L (map (\<lambda>rec. raw_cell L rec k) recs)"

text \<open>Two raw country items as the API returns them: an aggregate and a country.\<close>

definition sample_countries :: "'f json list" where
  "sample_countries =
     [JObj [(''id'', JStr ''EUU''), (''iso2Code'', JStr ''EU''), (''name'', JStr ''European Union''),
            (''region'', JObj [(''id'', JStr ''NA''), (''iso2code'', JStr ''NA''),
                               (''value'', JStr ''Aggregates'')]),
            (''incomeLevel'', JObj [(''id'', JStr ''NA''), (''value'', JStr ''Aggregates'')]),
            (''lendingType'', JObj [(''id'', JStr []), (''value'', JStr ''Aggregates'')]),
            (''capitalCity'', JStr []), (''longitude'', JStr []), (''latitude'', JStr [])],
      JObj [(''id'', JStr ''FRA''), (''iso2Code'', JStr ''FR''), (''name'', JStr ''France''),
            (''region'', JObj [(''id'', JStr ''ECS''), (''iso2code'', JStr ''Z7''),
                               (''value'', JStr ''Europe & Central Asia'')]),
            (''incomeLevel'', JObj [(''id'', JStr ''HIC''), (''value'', JStr ''High income'')]),
            (''lendingType'', JObj [(''id'', JStr ''LNX''), (''value'', JStr ''Not classified'')]),
            (''capitalCity'', JStr ''Paris''), (''longitude'', JStr ''2''), (''latitude'', JStr ''48'')]]"

text \<open>
  A sample run: a first page of observations with no items, a country endpoint that
  serves the two sample countries on one page, an environment with a project and a
  credentials file and nothing else set, a warehouse with no tables in which no call
  fails, and the world after the tables are made.
\<close>

definition empty_first_page :: "unit json" where
  "empty_first_page =
     JArr [JObj [(''page'', JInt 1), (''pages'', JInt 1), (''total'', JInt 0)], JArr []]"

definition countries_page :: "unit json" where
  "countries_page = page_json ([(''page'', JInt 1), (''pages'', JInt 1)], sample_countries)"

definition sample_transport :: "unit json \<Rightarrow> unit transport" where
  "sample_transport observations t rq =
     (if url rq = countries_url then serve_pages [countries_page] t rq
      else serve_pages [observations] t rq)"

definition sample_outside :: "unit json \<Rightarrow> unit outside" where
  "sample_outside observations =
     \<lparr>transport = sample_transport observations,
      getenv = map_of [(''GCP_PROJECT_ID'', ''proj''),
                       (''GOOGLE_APPLICATION_CREDENTIALS'', ''key.json'')],
      uuid4 = (\<lambda>_. ''run-1''),
      utcnow = (\<lambda>_. 1700000000000000),
      bq_raises = (\<lambda>_ _. None)\<rparr>"

definition empty_world :: "unit world" where
  "empty_world = \<lparr>trace = [], tables = (\<lambda>_. None)\<rparr>"

definition sample_dimension :: "unit frame" where
  "sample_dimension =
     \<lparr>columns = [''country_iso3'', ''country_iso2'', ''country_name'', ''region'',
                  ''income_level'', ''lending_type'', ''capital_city'', ''capital_lat'',
                  ''capital_lon''],
      data_rows =
        [[(''country_iso3'', Val (JStr ''FRA'')),
          (''country_iso2'', Val (JStr ''FR'')),
          (''country_name'', Val (JStr ''France'')),
          (''region'', Val (JStr ''Europe & Central Asia'')),
          (''income_level'', Val (JStr ''High income'')),
          (''lending_type'', Val (JStr ''Not classified'')),
          (''capital_city'', Val (JStr ''Paris'')),
          (''capital_lat'', Val (JInt 48)),
          (''capital_lon'', Val (JInt 2))]]\<rparr>"

definition started_world :: "unit world" where
  "started_world =
     \<lparr>trace = [Uuid4, Now, NewClient ''proj'',
               GetTable ''proj.wb_raw.raw_wb_indicators_long'',
               CreateTable ''proj.wb_raw.raw_wb_indicators_long'',
               GetTable ''proj.wb_raw.raw_country_dim'',
               CreateTable ''proj.wb_raw.raw_country_dim''],
      tables = ((\<lambda>_. None)(''proj.wb_raw.raw_wb_indicators_long'' \<mapsto> []))
                 (''proj.wb_raw.raw_country_dim'' \<mapsto> [])\<rparr>"

section \<open>Properties of the transport layer\<close>

lemma wb_get_json_loop_never_success:
  assumes "\<And>t. tr t rq = Response sc body" and "sc \<noteq> 200"
  shows "attempts_made (snd (wb_get_json_loop tr rq [1, 2] le t)) = attempts_made t + 2"
    and "\<exists>e. fst (wb_get_json_loop tr rq [1, 2] le t) = Inl (RuntimeError e)"
  using assms by (auto simp: attempts_made_def split: option.splits)

text \<open>
  C1. A status that is neither 200 nor in the retryable set should end the call after
  one attempt. On the code a 404 is raised by \<^verbatim>\<open>raise_for_status\<close> inside the
  \<^verbatim>\<open>try\<close>, caught by \<^verbatim>\<open>except Exception\<close>, and the request is made a second time: two
  requests and two sleeps, then the \<open>RuntimeError\<close> of the exhausted loop.
\<close>

theorem wb_get_json_404_is_retried:
  "wb_get_json (\<lambda>t rq. Response 404 None) ''u'' [] [] =
     (Inl (RuntimeError (Some (HTTPError 404))),
      [Get \<lparr>url = ''u'', params = [], timeout_s = 60\<rparr>, Sleep 800,
       Get \<lparr>url = ''u'', params = [], timeout_s = 60\<rparr>, Sleep 1600])"
  by (simp add: wb_get_json_def retryable_def raise_for_status_def backoff_ms_def)

text \<open>
  C2. A transport that answers 503 every time is asked twice and one \<open>RuntimeError\<close> is
  raised, but the error it carries is \<^verbatim>\<open>None\<close>: the branch of the retryable statuses
  never assigns \<^verbatim>\<open>last_err\<close>.
\<close>

theorem wb_get_json_503_last_err_None:
  "wb_get_json (\<lambda>t rq. Response 503 None) ''u'' [] [] =
     (Inl (RuntimeError None),
      [Get \<lparr>url = ''u'', params = [], timeout_s = 60\<rparr>, Sleep 800,
       Get \<lparr>url = ''u'', params = [], timeout_s = 60\<rparr>, Sleep 1600])"
  by (simp add: wb_get_json_def retryable_def raise_for_status_def backoff_ms_def)

section \<open>Properties of the pagination loops\<close>

lemma wb_get_json_first_ok:
  "tr t \<lparr>url = u, params = ps, timeout_s = 60\<rparr> = Response 200 (Some d) \<Longrightarrow>
   wb_get_json tr u ps t = (Inr d, t @ [Get \<lparr>url = u, params = ps, timeout_s = 60\<rparr>])"
  by (simp add: wb_get_json_def)

lemma reports_last_item:
  "reports_last m = Some b \<Longrightarrow> last_page_item L (JObj m) = Inr b"
  by (auto simp: reports_last_def last_page_item_def ge_ints_def
      split: option.splits json.splits)

lemma reports_last_get:
  "reports_last m = Some b \<Longrightarrow> last_page_get L (JObj m) = Inr b"
  by (auto simp: reports_last_def last_page_get_def ge_ints_def
      split: option.splits json.splits)

lemma fetch_indicators_long_loop_guard:
  assumes "tr t (indicators_request s e codes page) = Response 200 (Some data)"
    and "\<not> truthy L (items_or_empty data)"
  shows "fetch_indicators_long_loop L tr s e codes page rows t =
           Some (Inr rows, t @ [Get (indicators_request s e codes page)])"
  using assms
  by (subst fetch_indicators_long_loop.simps)
     (simp add: indicators_request_def wb_get_json_first_ok)

lemma items_or_empty_short: "length xs < 2 \<Longrightarrow> items_or_empty (JArr xs) = JArr []"
proof (cases xs)
  case Nil
  then show ?thesis by simp
next
  case (Cons x ys)
  assume "length xs < 2"
  with Cons have "ys = []" by simp
  with Cons show ?thesis by simp
qed

lemma indicators_step:
  assumes "tr t (indicators_request s e codes j) = Response 200 (Some (page_json pg))"
    and "reports_last (fst pg) = Some b" and "snd pg \<noteq> []"
  shows "fetch_indicators_long_loop L tr s e codes j acc t =
     (if b then Some (Inr (acc @ snd pg), t @ [Get (indicators_request s e codes j)])
      else fetch_indicators_long_loop L tr s e codes (j + 1) (acc @ snd pg)
             (t @ [Get (indicators_request s e codes j)]))"
  using assms
  by (subst fetch_indicators_long_loop.simps)
     (simp add: indicators_request_def wb_get_json_first_ok page_json_def reports_last_get)

lemma countries_step:
  assumes "tr t (countries_request j) = Response 200 (Some (page_json pg))"
    and "reports_last (fst pg) = Some b"
  shows "fetch_countries_dim_loop L tr j acc t =
     (if b then Some (Inr (acc @ snd pg), t @ [Get (countries_request j)])
      else fetch_countries_dim_loop L tr (j + 1) (acc @ snd pg) (t @ [Get (countries_request j)]))"
  using assms
  by (subst fetch_countries_dim_loop.simps)
     (simp add: countries_request_def wb_get_json_first_ok page_json_def reports_last_item)

lemma countries_pages:
  assumes "ps \<noteq> []"
    and "\<And>k t. k < length ps \<Longrightarrow>
          tr t (countries_request (j + int k)) = Response 200 (Some (page_json (ps ! k)))"
    and "\<And>pg. pg \<in> set (butlast ps) \<Longrightarrow> reports_last (fst pg) = Some False"
    and "reports_last (fst (last ps)) = Some True"
  shows "fetch_countries_dim_loop L tr j acc t =
     Some (Inr (acc @ concat (map snd ps)),
           t @ map (\<lambda>k. Get (countries_request (j + int k))) [0..<length ps])"
  using assms
proof (induction ps arbitrary: j acc t rule: list_nonempty_induct)
  case (single pg)
  have "tr t (countries_request j) = Response 200 (Some (page_json pg))"
    using single(1)[of 0 t] by simp
  then show ?case using single(3) countries_step[of tr t j pg True L acc] by simp
next
  case (cons pg ps)
  have here: "tr t (countries_request j) = Response 200 (Some (page_json pg))"
    using cons(3)[of 0 t] by simp
  have notlast: "reports_last (fst pg) = Some False"
    using cons(4)[of pg] cons(1) by simp
  have step: "fetch_countries_dim_loop L tr j acc t =
      fetch_countries_dim_loop L tr (j + 1) (acc @ snd pg) (t @ [Get (countries_request j)])"
    using countries_step[of tr t j pg False L acc] here notlast by simp
  have rest: "\<And>k t. k < length ps \<Longrightarrow>
      tr t (countries_request ((j + 1) + int k)) = Response 200 (Some (page_json (ps ! k)))"
  proof -
    fix k t assume "k < length ps"
    then show "tr t (countries_request ((j + 1) + int k)) = Response 200 (Some (page_json (ps ! k)))"
      using cons(3)[of "Suc k" t] by (simp add: algebra_simps)
  qed
  have ih: "fetch_countries_dim_loop L tr (j + 1) (acc @ snd pg) (t @ [Get (countries_request j)]) =
     Some (Inr ((acc @ snd pg) @ concat (map snd ps)),
           (t @ [Get (countries_request j)]) @
             map (\<lambda>k. Get (countries_request ((j + 1) + int k))) [0..<length ps])"
    using cons(4,5) cons(1) by (intro cons(2) rest) auto
  have idx: "map (\<lambda>k. Get (countries_request (j + int k))) [0..<length (pg # ps)] =
      Get (countries_request j) # map (\<lambda>k. Get (countries_request ((j + 1) + int k))) [0..<length ps]"
    by (simp add: upt_conv_Cons map_Suc_upt[symmetric] algebra_simps del: upt_Suc)
  show ?case unfolding step ih idx by simp
qed

lemma indicators_pages:
  assumes "ps \<noteq> []"
    and "\<And>k t. k < length ps \<Longrightarrow>
          tr t (indicators_request s e codes (j + int k)) = Response 200 (Some (page_json (ps ! k)))"
    and "\<And>pg. pg \<in> set (butlast ps) \<Longrightarrow> reports_last (fst pg) = Some False \<and> snd pg \<noteq> []"
    and "reports_last (fst (last ps)) = Some True"
  shows "fetch_indicators_long_loop L tr s e codes j acc t =
     Some (Inr (acc @ concat (map snd ps)),
           t @ map (\<lambda>k. Get (indicators_request s e codes (j + int k))) [0..<length ps])"
  using assms
proof (induction ps arbitrary: j acc t rule: list_nonempty_induct)
  case (single pg)
  have here: "tr t (indicators_request s e codes j) = Response 200 (Some (page_json pg))"
    using single(1)[of 0 t] by simp
  show ?case
  proof (cases "snd pg = []")
    case True
    have "\<not> truthy L (items_or_empty (page_json pg))"
      using True by (simp add: page_json_def)
    then show ?thesis
      using fetch_indicators_long_loop_guard[of tr t s e codes j "page_json pg" L acc] here True
      by simp
  next
    case False
    then show ?thesis
      using indicators_step[of tr t s e codes j pg True L acc] here single(3) by simp
  qed
next
  case (cons pg ps)
  have here: "tr t (indicators_request s e codes j) = Response 200 (Some (page_json pg))"
    using cons(3)[of 0 t] by simp
  have notlast: "reports_last (fst pg) = Some False" and nonempty: "snd pg \<noteq> []"
    using cons(4)[of pg] cons(1) by simp_all
  have step: "fetch_indicators_long_loop L tr s e codes j acc t =
      fetch_indicators_long_loop L tr s e codes (j + 1) (acc @ snd pg)
        (t @ [Get (indicators_request s e codes j)])"
    using indicators_step[of tr t s e codes j pg False L acc] here notlast nonempty by simp
  have rest: "\<And>k t. k < length ps \<Longrightarrow>
      tr t (indicators_request s e codes ((j + 1) + int k)) = Response 200 (Some (page_json (ps ! k)))"
  proof -
    fix k t assume "k < length ps"
    then show "tr t (indicators_request s e codes ((j + 1) + int k)) =
        Response 200 (Some (page_json (ps ! k)))"
      using cons(3)[of "Suc k" t] by (simp add: algebra_simps)
  qed
  have ih: "fetch_indicators_long_loop L tr s e codes (j + 1) (acc @ snd pg)
        (t @ [Get (indicators_request s e codes j)]) =
     Some (Inr ((acc @ snd pg) @ concat (map snd ps)),
           (t @ [Get (indicators_request s e codes j)]) @
             map (\<lambda>k. Get (indicators_request s e codes ((j + 1) + int k))) [0..<length ps])"
    using cons(4,5) cons(1) by (intro cons(2) rest) auto
  have idx: "map (\<lambda>k. Get (indicators_request s e codes (j + int k))) [0..<length (pg # ps)] =
      Get (indicators_request s e codes j) #
        map (\<lambda>k. Get (indicators_request s e codes ((j + 1) + int k))) [0..<length ps]"
    by (simp add: upt_conv_Cons map_Suc_upt[symmetric] algebra_simps del: upt_Suc)
  show ?case unfolding step ih idx by simp
qed

text \<open>
  C3. A page with an empty items list, whatever its metadata, and a response with fewer
  than two elements should end pagination without error in both loops. The loop of
  \<^verbatim>\<open>fetch_indicators_long\<close> does so (\<open>fetch_indicators_long_loop_guard\<close>,
  \<open>items_or_empty_short\<close>). The loop of \<^verbatim>\<open>fetch_countries_dim\<close> has no such guard: a
  one-element response raises \<open>IndexError\<close> at \<^verbatim>\<open>data[1]\<close>, and an empty items list with
  metadata that has no \<^verbatim>\<open>page\<close> raises \<open>KeyError\<close>.
\<close>

theorem fetch_countries_dim_loop_unguarded: 
  "fetch_countries_dim_loop L
     (\<lambda>t rq. Response 200 (Some (JArr [JObj [(''page'', JInt 1), (''pages'', JInt 1)]]))) 1 [] []
   = Some (Inl IndexError, [Get (countries_request 1)])
 \<and> fetch_countries_dim_loop L
     (\<lambda>t rq. Response 200 (Some (JArr [JObj [(''message'', JStr ''no data'')], JArr []]))) 1 [] []
   = Some (Inl (KeyError ''page''), [Get (countries_request 1)])"
  by (simp add: fetch_countries_dim_loop.simps wb_get_json_def countries_request_def last_page_item_def)

text \<open>
  C4, as stated, fails on the loop of \<^verbatim>\<open>fetch_indicators_long\<close>: of three pages whose
  last reports \<^verbatim>\<open>page = pages\<close>, the second with no items, only the first page's items
  are returned, because the empty page ends the loop.
\<close>

theorem fetch_indicators_long_loop_stops_at_empty_page: 
  "fetch_indicators_long_loop plain_lib
     (serve_pages
        [page_json ([(''page'', JInt 1), (''pages'', JInt 3)], [JStr ''a'']),
         page_json ([(''page'', JInt 2), (''pages'', JInt 3)], []),
         page_json ([(''page'', JInt 3), (''pages'', JInt 3)], [JStr ''b''])])
     2020 2025 [''X''] 1 [] []
   = Some (Inr [JStr ''a''],
           [Get (indicators_request 2020 2025 [''X''] 1),
            Get (indicators_request 2020 2025 [''X''] 2)])
   \<and> concat (map snd
        [([(''page'', JInt 1), (''pages'', JInt 3)], [JStr ''a'']),
         ([(''page'', JInt 2), (''pages'', JInt 3)], []),
         ([(''page'', JInt 3), (''pages'', JInt 3)], [JStr ''b'' :: unit json])])
     = [JStr ''a'', JStr ''b'']"
  by (simp add: fetch_indicators_long_loop.simps wb_get_json_def serve_pages_def
      indicators_request_def indicators_params_def page_json_def last_page_get_def ge_ints_def)

text \<open>
  C4, amended. Let \<open>ps\<close> be a non-empty sequence of pages with integer \<^verbatim>\<open>page\<close> and
  \<^verbatim>\<open>pages\<close> in their metadata, each page before the last reporting \<^verbatim>\<open>page < pages\<close> and
  the last one \<^verbatim>\<open>page >= pages\<close>, served in order whatever the trace. Then the loop of
  \<^verbatim>\<open>fetch_countries_dim\<close> ends after one request per page with the items of all pages,
  in order; and so does the loop of \<^verbatim>\<open>fetch_indicators_long\<close> when, in addition, no
  page before the last has an empty items list.
\<close>

theorem pagination_returns_every_item:
  assumes "ps \<noteq> []"
    and "\<forall>pg\<in>set (butlast ps). reports_last (fst pg) = Some False"
    and "reports_last (fst (last ps)) = Some True"
  shows "((\<forall>k<length ps. \<forall>t. tr t (countries_request (1 + int k)) =
              Response 200 (Some (page_json (ps ! k)))) \<longrightarrow>
          fetch_countries_dim_loop L tr 1 [] t =
            Some (Inr (concat (map snd ps)),
                  t @ map (\<lambda>k. Get (countries_request (1 + int k))) [0..<length ps]))
       \<and> ((\<forall>k<length ps. \<forall>t. tr t (indicators_request s e codes (1 + int k)) =
              Response 200 (Some (page_json (ps ! k)))) \<and>
          (\<forall>pg\<in>set (butlast ps). snd pg \<noteq> []) \<longrightarrow>
          fetch_indicators_long_loop L tr s e codes 1 [] t =
            Some (Inr (concat (map snd ps)),
                  t @ map (\<lambda>k. Get (indicators_request s e codes (1 + int k))) [0..<length ps]))"
proof (intro conjI impI)
  assume "\<forall>k<length ps. \<forall>t. tr t (countries_request (1 + int k)) =
              Response 200 (Some (page_json (ps ! k)))"
  then show "fetch_countries_dim_loop L tr 1 [] t =
            Some (Inr (concat (map snd ps)),
                  t @ map (\<lambda>k. Get (countries_request (1 + int k))) [0..<length ps])"
    using countries_pages[of ps tr 1 L "[]" t] assms by simp
next
  assume "(\<forall>k<length ps. \<forall>t. tr t (indicators_request s e codes (1 + int k)) =
              Response 200 (Some (page_json (ps ! k)))) \<and>
          (\<forall>pg\<in>set (butlast ps). snd pg \<noteq> [])"
  then show "fetch_indicators_long_loop L tr s e codes 1 [] t =
            Some (Inr (concat (map snd ps)),
                  t @ map (\<lambda>k. Get (indicators_request s e codes (1 + int k))) [0..<length ps])"
    using indicators_pages[of ps tr s e codes 1 L "[]" t] assms by simp
qed

theorem pagination_returns_every_item_witness:
  "fetch_countries_dim_loop plain_lib (serve_pages (map page_json two_pages)) 1 [] [] =
     Some (Inr [JStr ''a'', JStr ''b'', JStr ''c''],
           [Get (countries_request 1), Get (countries_request 2)])
   \<and> fetch_indicators_long_loop plain_lib (serve_pages (map page_json two_pages))
        2020 2025 [''FP.CPI.TOTL.ZG''] 1 [] [] =
     Some (Inr [JStr ''a'', JStr ''b'', JStr ''c''],
           [Get (indicators_request 2020 2025 [''FP.CPI.TOTL.ZG''] 1),
            Get (indicators_request 2020 2025 [''FP.CPI.TOTL.ZG''] 2)])"
proof -
  have ne: "two_pages \<noteq> []"
    by (simp add: two_pages_def)
  have mid: "\<forall>pg\<in>set (butlast two_pages). reports_last (fst pg) = Some False"
    by (simp add: two_pages_def reports_last_def)
  have fin: "reports_last (fst (last two_pages)) = Some True"
    by (simp add: two_pages_def reports_last_def)
  have full: "\<forall>pg\<in>set (butlast two_pages). snd pg \<noteq> []"
    by (simp add: two_pages_def)
  have len: "length two_pages = 2"
    by (simp add: two_pages_def)
  have cty: "\<forall>k<length two_pages. \<forall>t.
      serve_pages (map page_json two_pages) t (countries_request (1 + int k)) =
        Response 200 (Some (page_json (two_pages ! k)))"
    unfolding len
    by (auto simp: less_Suc_eq numeral_2_eq_2 serve_pages_def countries_request_def
        countries_params_def two_pages_def)
  have ind: "\<forall>k<length two_pages. \<forall>t.
      serve_pages (map page_json two_pages) t
        (indicators_request 2020 2025 [''FP.CPI.TOTL.ZG''] (1 + int k)) =
        Response 200 (Some (page_json (two_pages ! k)))"
    unfolding len
    by (auto simp: less_Suc_eq numeral_2_eq_2 serve_pages_def indicators_request_def
        indicators_params_def two_pages_def)
  have idx: "[0..<length two_pages] = [0, 1]"
    unfolding len by (simp add: upt_conv_Cons)
  show ?thesis
    using pagination_returns_every_item[OF ne mid fin,
        of "serve_pages (map page_json two_pages)" plain_lib "[]" 2020 2025
          "[''FP.CPI.TOTL.ZG'']"]
      cty ind full
    unfolding idx by (simp add: two_pages_def)
qed

section \<open>Properties of the pandas operations\<close>

lemma set_first_seen [simp]: "set (first_seen xs) = set xs"
  by (induction xs) auto

lemma distinct_first_seen [simp]: "distinct (first_seen xs)"
  by (induction xs) auto

lemma count_list_map_0: "(\<forall>c\<in>set cs. f c \<noteq> T) \<Longrightarrow> count_list (map f cs) T = 0"
  by (induction cs) auto

lemma count_list_map_le1:
  "distinct cs \<Longrightarrow> (\<forall>c\<in>set cs. c \<noteq> S \<longrightarrow> f c \<noteq> T) \<Longrightarrow> count_list (map f cs) T \<le> 1"
proof (induction cs)
  case Nil
  then show ?case by simp
next
  case (Cons c cs)
  have ih: "count_list (map f cs) T \<le> 1"
    using Cons by simp
  show ?case
  proof (cases "c = S")
    case True
    have "S \<notin> set cs"
      using Cons.prems(1) True by simp
    then have "\<forall>c'\<in>set cs. f c' \<noteq> T"
      using Cons.prems(2) by auto
    then have "count_list (map f cs) T = 0"
      by (rule count_list_map_0)
    then show ?thesis by simp
  next
    case False
    then have "f c \<noteq> T"
      using Cons.prems(2) by simp
    with ih show ?thesis by simp
  qed
qed

lemma map_of_first_match:
  "S \<in> set cs \<Longrightarrow> f S = T \<Longrightarrow> (\<forall>c\<in>set cs. c \<noteq> S \<longrightarrow> f c \<noteq> T) \<Longrightarrow>
   map_of (map (\<lambda>c. (f c, g c)) cs) T = Some (g S)"
proof (induction cs)
  case Nil
  then show ?case by simp
next
  case (Cons c cs)
  show ?case
  proof (cases "c = S")
    case True
    with Cons.prems(2) show ?thesis by simp
  next
    case False
    then have "f c \<noteq> T" and "S \<in> set cs"
      using Cons.prems by auto
    moreover have "\<forall>c\<in>set cs. c \<noteq> S \<longrightarrow> f c \<noteq> T"
      using Cons.prems(3) by simp
    ultimately show ?thesis
      using Cons.IH Cons.prems(2) by simp
  qed
qed

lemma DataFrame_tabulate:
  "DataFrame L recs =
     tabulate (first_seen (concat (map (map fst) recs))) (\<lambda>c i. column_of L recs c ! i)
       [0..<length recs]"
  by (simp add: DataFrame_def tabulate_def)

lemma select_renamed:
  assumes dist: "distinct cs"
    and src: "\<forall>T\<in>set ts. src T \<in> set cs \<and> renamed m (src T) = T \<and>
            (\<forall>c\<in>set cs. c \<noteq> src T \<longrightarrow> renamed m c \<noteq> T)"
  shows "select_columns ts (rename m (tabulate cs g xs)) = Inr (tabulate ts (\<lambda>T. g (src T)) xs)"
proof -
  have present: "filter (\<lambda>c. c \<notin> set (columns (rename m (tabulate cs g xs)))) ts = []"
    using src by (force simp: rename_def tabulate_def filter_empty_conv)
  have once: "\<not> list_ex (\<lambda>c. 1 < count_list (columns (rename m (tabulate cs g xs))) c) ts"
  proof -
    have "count_list (map (renamed m) cs) T \<le> 1" if "T \<in> set ts" for T
      using src that by (intro count_list_map_le1[where S = "src T"] dist) auto
    then show ?thesis by (force simp: list_ex_iff rename_def tabulate_def)
  qed
  have cell: "cell_at (map (\<lambda>kx. (renamed m (fst kx), snd kx)) (map (\<lambda>c. (c, g c x)) cs)) T
      = g (src T) x" if "T \<in> set ts" for T x
  proof -
    have "map_of (map (\<lambda>c. (renamed m c, g c x)) cs) T = Some (g (src T) x)"
      using src that by (intro map_of_first_match) auto
    then show ?thesis by (simp add: cell_at_def comp_def)
  qed
  have rows_eq: "map (\<lambda>r. map (\<lambda>c. (c, cell_at r c)) ts) (data_rows (rename m (tabulate cs g xs)))
      = map (\<lambda>x. map (\<lambda>T. (T, g (src T) x)) ts) xs"
    using cell by (auto simp: rename_def tabulate_def comp_def)
  show ?thesis
    unfolding select_columns_def using present once rows_eq by (simp add: tabulate_def)
qed

lemma count_list_distinct: "distinct xs \<Longrightarrow> count_list xs x \<le> 1"
  by (induction xs) (auto simp: count_list_0_iff)

lemma map_of_tabulated:
  "map_of (map (\<lambda>c. (c, g c)) cs) k = (if k \<in> set cs then Some (g k) else None)"
  by (induction cs) auto

lemma select_tabulated:
  assumes "distinct cs" and "set ts \<subseteq> set cs"
  shows "select_columns ts (tabulate cs g xs) = Inr (tabulate ts g xs)"
proof -
  have present: "filter (\<lambda>c. c \<notin> set cs) ts = []"
    using assms(2) by (auto simp: filter_empty_conv)
  have once: "\<not> list_ex (\<lambda>c. 1 < count_list cs c) ts"
    using count_list_distinct[OF assms(1)] by (auto simp: list_ex_iff not_less)
  have rows_eq: "map (\<lambda>r. map (\<lambda>c. (c, cell_at r c)) ts) (map (\<lambda>x. map (\<lambda>c. (c, g c x)) cs) xs)
      = map (\<lambda>x. map (\<lambda>c. (c, g c x)) ts) xs"
    using assms(2) by (auto simp: cell_at_def map_of_tabulated)
  show ?thesis
    unfolding select_columns_def tabulate_def using present once rows_eq by simp
qed

lemma series_tabulated:
  assumes "distinct cs" and "k \<in> set cs"
  shows "series (tabulate cs g xs) k = Inr (map (g k) xs)"
proof -
  have "\<not> 1 < count_list cs k"
    using count_list_distinct[OF assms(1), of k] by simp
  then show ?thesis
    using assms(2) by (simp add: series_def tabulate_def comp_def cell_at_def map_of_tabulated)
qed

lemma mask_zip_map:
  "map snd (filter fst (zip (map p xs) (map h xs))) = map h (filter p xs)"
  by (induction xs) auto

lemma mask_tabulated:
  "mask_rows (map p xs) (tabulate cs g xs) = tabulate cs g (filter p xs)"
  by (simp add: mask_rows_def tabulate_def mask_zip_map)

lemma collect_map_Inr:
  "(\<forall>x\<in>set xs. f x = Inr (g x)) \<Longrightarrow> collect (map f xs) = Inr (map g xs)"
  by (induction xs) auto

lemma set_column_map:
  "set_column c (map f xs) \<lparr>columns = cs, data_rows = map h xs\<rparr> =
     \<lparr>columns = cs, data_rows = map (\<lambda>x. put_cell c (f x) (h x)) xs\<rparr>"
  by (simp add: set_column_def zip_map_map zip_same_conv_map comp_def)

lemma filter_map_rows:
  "filter P (map h xs) = map h (filter (\<lambda>x. P (h x)) xs)"
  by (induction xs) auto

lemma infer_column_no_int: "\<not> list_ex is_int_cell xs \<Longrightarrow> infer_column L xs = xs"
  by (simp add: infer_column_def)

lemma length_infer_column [simp]: "length (infer_column L xs) = length xs"
  by (simp add: infer_column_def)

lemma coerce_as_float_numeric:
  "c = NaN \<or> is_int_cell c \<or> is_float_cell c \<Longrightarrow> coerce L (as_float L c) = as_float L c"
  by (cases c rule: is_int_cell.cases) auto

lemma coerce_numeric:
  "c = NaN \<or> is_int_cell c \<or> is_float_cell c \<Longrightarrow> coerce L c = c"
  by (cases c rule: is_int_cell.cases) auto

lemma as_float_idem [simp]: "as_float L (as_float L c) = as_float L c"
  by (cases "(L, c)" rule: as_float.cases) auto

lemma as_float_missing_or_float:
  "c = NaN \<or> is_float_cell c \<Longrightarrow> as_float L c = c \<and> (as_float L c = NaN \<or> is_float_cell (as_float L c))"
  by (cases c rule: is_float_cell.cases) auto

lemma float_column_ex: "list_ex (\<lambda>c. c = NaN \<or> is_float_cell c) ys \<Longrightarrow> float_column ys"
  by (simp add: float_column_def)

lemma to_numeric_infer: "to_numeric L (infer_column L xs) = to_numeric L xs"
proof (cases "list_all (\<lambda>c. c = NaN \<or> is_int_cell c \<or> is_float_cell c) xs
         \<and> list_ex is_int_cell xs \<and> list_ex (\<lambda>c. c = NaN \<or> is_float_cell c) xs")
  case False
  then have "infer_column L xs = xs"
    unfolding infer_column_def by (rule if_not_P)
  then show ?thesis by simp
next
  case True
  then have num: "\<forall>c\<in>set xs. c = NaN \<or> is_int_cell c \<or> is_float_cell c"
    and ex: "list_ex (\<lambda>c. c = NaN \<or> is_float_cell c) xs"
    by (simp_all add: list_all_iff)
  have inf: "infer_column L xs = map (as_float L) xs"
    unfolding infer_column_def using True by (rule if_P)
  have c1: "map (coerce L) (map (as_float L) xs) = map (as_float L) xs"
    using num by (simp add: coerce_as_float_numeric)
  have c2: "map (coerce L) xs = xs"
    using num by (simp add: coerce_numeric map_idI)
  obtain c where c: "c \<in> set xs" "c = NaN \<or> is_float_cell c"
    using ex by (auto simp: list_ex_iff)
  have "as_float L c = c"
    using as_float_missing_or_float[OF c(2), of L] by simp
  then have "c \<in> as_float L ` set xs"
    using c(1) by (metis image_eqI)
  then have "list_ex (\<lambda>c. c = NaN \<or> is_float_cell c) (map (as_float L) xs)"
    unfolding list_ex_iff set_map using c(2) by blast
  then have f1: "float_column (map (as_float L) xs)"
    by (rule float_column_ex)
  have f2: "float_column xs"
    using ex by (rule float_column_ex)
  have l: "to_numeric L (map (as_float L) xs) = map (as_float L) xs"
  proof -
    have "map (\<lambda>x. as_float L (coerce L x)) (map (as_float L) xs) = map (as_float L) xs"
      using num by (simp add: coerce_as_float_numeric)
    then show ?thesis
      unfolding to_numeric_def c1 using f1 by simp
  qed
  have r: "to_numeric L xs = map (as_float L) xs"
  proof -
    have "map (\<lambda>x. as_float L (coerce L x)) xs = map (as_float L) xs"
      using num by (simp add: coerce_numeric)
    then show ?thesis
      unfolding to_numeric_def c2 using f2 by simp
  qed
  show ?thesis
    unfolding inf l r ..
qed

lemma length_to_numeric [simp]: "length (to_numeric L xs) = length xs"
  by (simp add: to_numeric_def)

lemma as_float_NaN [simp]: "(as_float L c = NaN) = (c = NaN)"
  by (cases "(L, c)" rule: as_float.cases) auto

lemma as_int_NaN [simp]: "(as_int c = NaN) = (c = NaN)"
  by (cases c rule: as_int.cases) auto

lemma to_numeric_null:
  "map (\<lambda>v. v = NaN) (to_numeric L xs) = map (non_numeric L) xs"
  by (simp add: to_numeric_def non_numeric_def)

lemma year_readable_cases:
  assumes "year_readable L c"
  obtains "coerce L c = NaN" "year_of L c = None"
  | i where "coerce L c = Val (JInt i)" "year_of L c = Some i" "in_int64 i" "float_exact L i"
proof (cases "coerce L c = NaN")
  case True
  then show ?thesis
    using that(1) by (simp add: year_of_def)
next
  case False
  then obtain i where i: "year_of L c = Some i" "in_int64 i" "float_exact L i"
    using assms by (auto simp: year_readable_def non_numeric_def split: option.splits)
  then have "coerce L c = Val (JInt i)"
    by (auto simp: year_of_def split: cell.splits json.splits)
  then show ?thesis
    using that(2) i by simp
qed

lemma cast_year:
  assumes "year_readable L c"
  shows "astype_Int64 L (as_float L (coerce L c)) = Inr (year_cell L c)"
    and "astype_Int64 L (as_int (coerce L c)) = Inr (year_cell L c)"
    and "astype_Int64 L (coerce L c) = Inr (year_cell L c)"
  using assms
  by (cases rule: year_readable_cases; simp add: year_cell_def float_exact_def)+

lemma years_cast:
  assumes "\<forall>c\<in>set dates. year_readable L c"
  shows "collect (map (astype_Int64 L) (to_numeric L dates)) = Inr (map (year_cell L) dates)"
proof -
  have a: "collect (map (astype_Int64 L) (map (\<lambda>x. as_float L (coerce L x)) dates))
      = Inr (map (year_cell L) dates)"
    unfolding map_map comp_def using assms by (intro collect_map_Inr) (simp add: cast_year)
  have b: "collect (map (astype_Int64 L) (map (\<lambda>x. as_int (coerce L x)) dates))
      = Inr (map (year_cell L) dates)"
    unfolding map_map comp_def using assms by (intro collect_map_Inr) (simp add: cast_year)
  have c: "collect (map (astype_Int64 L) (map (coerce L) dates))
      = Inr (map (year_cell L) dates)"
    unfolding map_map comp_def using assms by (intro collect_map_Inr) (simp add: cast_year)
  show ?thesis
    unfolding to_numeric_def using a b c by simp
qed

lemma isna_year_cell:
  assumes "year_readable L c"
  shows "isna L (year_cell L c) = non_numeric L c"
  using assms
  by (cases rule: year_readable_cases) (simp_all add: year_cell_def non_numeric_def)

lemma isna_cell_of_json: "isna L (cell_of_json L v) = (cell_of_json L v = NaN)"
  by (cases "(L, v)" rule: cell_of_json.cases) auto

lemma isna_raw_cell: "isna L (raw_cell L rec k) = (raw_cell L rec k = NaN)"
  by (simp add: raw_cell_def isna_cell_of_json split: option.splits)

lemma column_of_raw:
  "column_of L recs c = infer_column L (map (\<lambda>rec. raw_cell L rec c) recs)"
  by (simp add: column_of_def raw_cell_def)

lemma length_column_of [simp]: "length (column_of L recs c) = length recs"
  by (simp add: column_of_def)

lemma column_of_indexed:
  "map (\<lambda>i. column_of L recs c ! i) [0..<length recs] = column_of L recs c"
  using map_nth[of "column_of L recs c"] by simp

lemma column_of_no_int:
  assumes "\<forall>rec\<in>set recs. \<not> is_int_cell (raw_cell L rec c)"
  shows "column_of L recs c = map (\<lambda>rec. raw_cell L rec c) recs"
  unfolding column_of_raw using assms by (intro infer_column_no_int) (simp add: list_ex_iff)

lemma zip_indexed:
  "length ys = length xs \<Longrightarrow> map (\<lambda>i. (xs ! i, ys ! i)) [0..<length xs] = zip xs ys"
  by (intro nth_equalityI) simp_all

lemma indexed_list: "map (\<lambda>i. xs ! i) [0..<length xs] = xs"
  by (rule map_nth)

lemma indicator_source_simps:
  "indicator_source ''country_iso3'' = ''countryiso3code''"
  "indicator_source ''country_name'' = ''country.value''"
  "indicator_source ''year'' = ''date''"
  "indicator_source ''indicator_code'' = ''indicator.id''"
  "indicator_source ''indicator_name'' = ''indicator.value''"
  "indicator_source ''value'' = ''value''"
  by (simp_all add: indicator_source_def renamed_def indicator_rename_def)

lemma renamed_unique:
  assumes dv: "distinct (map snd m)" and ST: "(S, T) \<in> set m" and cS: "c \<noteq> S"
    and nout: "c \<notin> snd ` set m - fst ` set m"
  shows "renamed m c \<noteq> T"
proof
  assume eq: "renamed m c = T"
  show False
  proof (cases "map_of m c")
    case None
    then have "c = T"
      using eq by (simp add: renamed_def)
    moreover have "c \<notin> fst ` set m"
      using None by (simp add: map_of_eq_None_iff)
    moreover have "T \<in> snd ` set m"
      using ST by force
    ultimately show False
      using nout by simp
  next
    case (Some T')
    then have "(c, T) \<in> set m"
      using eq by (auto simp: renamed_def dest: map_of_SomeD)
    moreover have "inj_on snd (set m)"
      using dv by (simp add: distinct_map)
    ultimately have "(c, T) = (S, T)"
      using ST inj_onD[of snd "set m" "(c, T)" "(S, T)"] by simp
    then show False
      using cS by simp
  qed
qed

lemma renamed_key:
  "distinct (map fst m) \<Longrightarrow> (S, T) \<in> set m \<Longrightarrow> renamed m S = T"
  by (simp add: renamed_def)

lemma indicator_rename_distinct:
  "distinct (map fst indicator_rename)" "distinct (map snd indicator_rename)"
  by (simp_all add: indicator_rename_def)

lemma indicator_rename_range:
  "snd ` set indicator_rename - fst ` set indicator_rename = output_only_names"
  by (simp add: indicator_rename_def output_only_names_def insert_Diff_if)

lemma indicator_columns_cases:
  "T \<in> set indicator_columns \<Longrightarrow>
     T = ''country_iso3'' \<or> T = ''country_name'' \<or> T = ''year''
    \<or> T = ''indicator_code'' \<or> T = ''indicator_name'' \<or> T = ''value''"
  by (simp add: indicator_columns_def)

lemma indicator_source_pairs:
  "(indicator_source ''country_iso3'', ''country_iso3'') \<in> set indicator_rename"
  "(indicator_source ''country_name'', ''country_name'') \<in> set indicator_rename"
  "(indicator_source ''year'', ''year'') \<in> set indicator_rename"
  "(indicator_source ''indicator_code'', ''indicator_code'') \<in> set indicator_rename"
  "(indicator_source ''indicator_name'', ''indicator_name'') \<in> set indicator_rename"
  "(indicator_source ''value'', ''value'') \<in> set indicator_rename"
  by (simp_all add: indicator_source_simps indicator_rename_def)

lemma indicator_source_in:
  assumes "T \<in> set indicator_columns"
  shows "(indicator_source T, T) \<in> set indicator_rename"
  using indicator_columns_cases[OF assms]
  by (elim disjE; simp only: indicator_source_pairs)

lemma renamed_source:
  "T \<in> set indicator_columns \<Longrightarrow> renamed indicator_rename (indicator_source T) = T"
  by (intro renamed_key indicator_rename_distinct indicator_source_in)

lemma renamed_other:
  assumes "T \<in> set indicator_columns" and "c \<notin> output_only_names" and "c \<noteq> indicator_source T"
  shows "renamed indicator_rename c \<noteq> T"
  using assms indicator_rename_range
  by (intro renamed_unique[where S = "indicator_source T"] indicator_rename_distinct
      indicator_source_in) simp_all

lemma map_by_index: "map f xs = map (\<lambda>i. f (xs ! i)) [0..<length xs]"
  by (intro nth_equalityI) simp_all

lemma json_normalize_records:
  "rows \<noteq> [] \<Longrightarrow> \<not> list_ex is_list rows \<Longrightarrow> no_big_int rows \<Longrightarrow>
   json_normalize L rows = Inr (DataFrame L (map simple_json_normalize rows))"
  by (simp add: json_normalize_def no_big_int_def)

lemma rows_by_index:
  assumes "length vs = length recs"
  shows "map (\<lambda>i. f (recs ! i) (vs ! i)) (filter (\<lambda>i. P (recs ! i)) [0..<length recs])
     = map (\<lambda>(rec, v). f rec v) (filter (\<lambda>(rec, v). P rec) (zip recs vs))"
proof -
  have "map (\<lambda>(rec, v). f rec v) (filter (\<lambda>(rec, v). P rec)
          (map (\<lambda>i. (recs ! i, vs ! i)) [0..<length recs]))
      = map (\<lambda>i. f (recs ! i) (vs ! i)) (filter (\<lambda>i. P (recs ! i)) [0..<length recs])"
    by (simp add: filter_map comp_def)
  then show ?thesis
    unfolding zip_indexed[OF assms] by simp
qed



lemma flat_sample: "map simple_json_normalize sample_observations =
   [[(''countryiso3code'', JStr ''FRA''), (''date'', JStr ''2020''), (''value'', JStr ''n/a''),
     (''indicator.id'', JStr ''FP.CPI.TOTL.ZG''), (''indicator.value'', JStr ''Inflation''),
     (''country.id'', JStr ''FR''), (''country.value'', JStr ''France'')],
    [(''countryiso3code'', JNull), (''date'', JStr ''2020''), (''value'', JInt 3),
     (''indicator.id'', JStr ''FP.CPI.TOTL.ZG''), (''indicator.value'', JStr ''Inflation''),
     (''country.id'', JStr ''XX''), (''country.value'', JStr ''Nowhere'')],
    [(''countryiso3code'', JStr ''DEU''), (''date'', JStr ''2020Q1''), (''value'', JInt 4),
     (''indicator.id'', JStr ''FP.CPI.TOTL.ZG''), (''indicator.value'', JStr ''Inflation''),
     (''country.id'', JStr ''DE''), (''country.value'', JStr ''Germany'')],
    [(''countryiso3code'', JStr ''USA''), (''date'', JStr ''2021''), (''value'', JInt 5),
     (''indicator.id'', JStr ''FP.CPI.TOTL.ZG''), (''indicator.value'', JStr ''Inflation''),
     (''country.id'', JStr ''US''), (''country.value'', JStr ''United States'')]]"
  by (simp add: sample_observations_def normalise_json_ordered_def dict_update_def new_key_def)


lemma filter_by_index:
  "map ((!) xs) (filter (\<lambda>i. P (xs ! i)) [0..<length xs]) = filter P xs"
proof -
  have "filter P (map ((!) xs) [0..<length xs]) = map ((!) xs) (filter (\<lambda>i. P (xs ! i)) [0..<length xs])"
    by (simp add: filter_map comp_def)
  then show ?thesis
    by (simp add: map_nth)
qed

lemma astype_str_NA:
  "c = NaN \<or> is_str_cell c \<Longrightarrow> (astype_str L c \<noteq> Some ''NA'') = (c \<noteq> Val (JStr ''NA''))"
  by (cases c rule: is_str_cell.cases) auto

lemma is_str_not_int: "c = NaN \<or> is_str_cell c \<Longrightarrow> \<not> is_int_cell c"
  by (cases c rule: is_str_cell.cases) auto

lemma zip3_indexed:
  assumes "length ys = length xs" and "length zs = length xs"
  shows "map (\<lambda>j. f (xs ! j) (ys ! j) (zs ! j)) [0..<length xs]
     = map (\<lambda>(x, y, z). f x y z) (zip xs (zip ys zs))"
  using assms by (intro nth_equalityI) simp_all

text \<open>
  C7, amended. Take a non-empty batch of raw country items, none of them a list and none
  with a field that is an integer outside the signed 64-bit range, in which
  \<^verbatim>\<open>region.id\<close> and each of the nine raw fields occur in some item, the region
  identifier of every item is a string or missing, and no item has an integer in one of
  the nine fields. Then the normaliser returns the table of nine columns whose rows are,
  in order, the rows of the items whose region identifier is not the string \<^verbatim>\<open>"NA"\<close>: an
  item is excluded exactly when its region identifier is \<^verbatim>\<open>"NA"\<close>, and every other item
  (one without a region identifier too) is present, with its seven text fields unchanged
  and its latitude and longitude as the coercion of their columns gives them.
\<close>

theorem countries_frame_rowwise:
  assumes ne: "rows \<noteq> []" and nolist: "\<not> list_ex is_list rows" and small: "no_big_int rows"
    and have_src: "insert ''region.id'' (set (map fst keep_cols)) \<subseteq> flat_keys rows"
    and region: "\<forall>r\<in>set rows. text_field L (simple_json_normalize r) ''region.id''"
    and fields: "\<forall>r\<in>set rows. no_int_field L (map fst keep_cols) (simple_json_normalize r)"
  shows "countries_frame L rows =
     Inr \<lparr>columns = map snd keep_cols,
          data_rows =
            map (\<lambda>(rec, lat, lon). cty_row L rec lat lon)
              (zip (filter (cty_kept L) (map simple_json_normalize rows))
                 (zip (coordinate_column L ''latitude''
                         (filter (cty_kept L) (map simple_json_normalize rows)))
                      (coordinate_column L ''longitude''
                         (filter (cty_kept L) (map simple_json_normalize rows)))))\<rparr>"
proof -
  define recs where "recs = map simple_json_normalize rows"
  define idx where "idx = [0..<length recs]"
  define cols where "cols = first_seen (concat (map (map fst) recs))"
  define g0 where "g0 = (\<lambda>c i. column_of L recs c ! i)"
  define p where "p = (\<lambda>i. cty_kept L (recs ! i))"
  define krecs where "krecs = filter (cty_kept L) recs"
  define jdx where "jdx = [0..<length krecs]"
  define lats where "lats = coordinate_column L ''latitude'' krecs"
  define lons where "lons = coordinate_column L ''longitude'' krecs"
  define raw9 :: "(string \<times> 'a json) list \<Rightarrow> 'a row" where
    "raw9 = (\<lambda>rec. [(''country_iso3'', raw_cell L rec ''id''),
      (''country_iso2'', raw_cell L rec ''iso2Code''),
      (''country_name'', raw_cell L rec ''name''),
      (''region'', raw_cell L rec ''region.value''),
      (''income_level'', raw_cell L rec ''incomeLevel.value''),
      (''lending_type'', raw_cell L rec ''lendingType.value''),
      (''capital_city'', raw_cell L rec ''capitalCity''),
      (''capital_lat'', raw_cell L rec ''latitude''),
      (''capital_lon'', raw_cell L rec ''longitude'')])"
  define lat9 :: "nat \<Rightarrow> 'a row" where
    "lat9 = (\<lambda>j. [(''country_iso3'', raw_cell L (krecs ! j) ''id''),
      (''country_iso2'', raw_cell L (krecs ! j) ''iso2Code''),
      (''country_name'', raw_cell L (krecs ! j) ''name''),
      (''region'', raw_cell L (krecs ! j) ''region.value''),
      (''income_level'', raw_cell L (krecs ! j) ''incomeLevel.value''),
      (''lending_type'', raw_cell L (krecs ! j) ''lendingType.value''),
      (''capital_city'', raw_cell L (krecs ! j) ''capitalCity''),
      (''capital_lat'', lats ! j),
      (''capital_lon'', raw_cell L (krecs ! j) ''longitude'')])"
  have len_lats: "length lats = length krecs" and len_lons: "length lons = length krecs"
    by (simp_all add: lats_def lons_def coordinate_column_def)
  have region': "\<forall>rec\<in>set recs. text_field L rec ''region.id''"
    using region by (simp add: recs_def)
  have fields': "\<forall>rec\<in>set recs. no_int_field L (map fst keep_cols) rec"
    using fields by (simp add: recs_def)
  have jn: "json_normalize L rows = Inr (tabulate cols g0 idx)"
    using json_normalize_records[OF ne nolist small, of L]
    by (simp add: DataFrame_tabulate recs_def cols_def g0_def idx_def)
  have dist: "distinct cols"
    by (simp add: cols_def)
  have set_cols: "set cols = flat_keys rows"
    by (simp add: cols_def flat_keys_def comp_def recs_def)
  have region_col: "g0 ''region.id'' i = raw_cell L (recs ! i) ''region.id''" if "i \<in> set idx" for i
  proof -
    have "\<forall>rec\<in>set recs. \<not> is_int_cell (raw_cell L rec ''region.id'')"
      using region' is_str_not_int unfolding text_field_def by blast
    then have "column_of L recs ''region.id'' = map (\<lambda>rec. raw_cell L rec ''region.id'') recs"
      by (rule column_of_no_int)
    then show ?thesis
      using that by (simp add: g0_def idx_def)
  qed
  have field_col: "g0 k i = raw_cell L (recs ! i) k"
    if "k \<in> set (map fst keep_cols)" and "i \<in> set idx" for k i
  proof -
    have "\<forall>rec\<in>set recs. \<not> is_int_cell (raw_cell L rec k)"
      using fields' that(1) by (auto simp: no_int_field_def list_ex_iff simp del: set_map)
    then have "column_of L recs k = map (\<lambda>rec. raw_cell L rec k) recs"
      by (rule column_of_no_int)
    then show ?thesis
      using that(2) by (simp add: g0_def idx_def)
  qed
  have ser: "series (tabulate cols g0 idx) ''region.id'' = Inr (map (g0 ''region.id'') idx)"
    using have_src set_cols by (intro series_tabulated dist) auto
  have keep: "map (\<lambda>c. astype_str L c \<noteq> Some ''NA'') (map (g0 ''region.id'') idx) = map p idx"
  proof -
    have "(astype_str L (g0 ''region.id'' i) \<noteq> Some ''NA'') = p i" if "i \<in> set idx" for i
    proof -
      have "recs ! i \<in> set recs"
        using that by (simp add: idx_def)
      then have "text_field L (recs ! i) ''region.id''"
        using region' by simp
      then show ?thesis
        unfolding region_col[OF that] p_def cty_kept_def text_field_def by (rule astype_str_NA)
    qed
    then show ?thesis by simp
  qed
  have sel: "select_columns (map fst keep_cols) (tabulate cols g0 (filter p idx))
      = Inr (tabulate (map fst keep_cols) g0 (filter p idx))"
    using have_src set_cols by (intro select_tabulated dist) auto
  have raw_rows: "rename keep_cols (tabulate (map fst keep_cols) g0 (filter p idx))
      = \<lparr>columns = map snd keep_cols, data_rows = map raw9 krecs\<rparr>"
  proof -
    have row: "map (\<lambda>kx. (renamed keep_cols (fst kx), snd kx)) (map (\<lambda>c. (c, g0 c i)) (map fst keep_cols))
        = raw9 (recs ! i)" if "i \<in> set idx" for i
      using field_col[OF _ that] by (simp add: keep_cols_def renamed_def raw9_def)
    have "map (\<lambda>i. map (\<lambda>kx. (renamed keep_cols (fst kx), snd kx))
              (map (\<lambda>c. (c, g0 c i)) (map fst keep_cols))) (filter p idx)
        = map (\<lambda>i. raw9 (recs ! i)) (filter p idx)"
      using row by (intro map_cong) auto
    moreover have "map (\<lambda>i. raw9 (recs ! i)) (filter p idx) = map raw9 krecs"
    proof -
      have "map ((!) recs) (filter p idx) = krecs"
        unfolding p_def idx_def krecs_def by (rule filter_by_index)
      then have "map raw9 (map ((!) recs) (filter p idx)) = map raw9 krecs"
        by simp
      then show ?thesis
        by (simp add: comp_def)
    qed
    moreover have "map (renamed keep_cols) (map fst keep_cols) = map snd keep_cols"
      by (simp add: keep_cols_def renamed_def)
    ultimately show ?thesis
      by (simp add: rename_def tabulate_def comp_def)
  qed
  have raw_idx: "map raw9 krecs = map (\<lambda>j. raw9 (krecs ! j)) jdx"
    unfolding jdx_def by (rule map_by_index)
  have lat_series: "to_numeric L (map (\<lambda>r. cell_at r ''capital_lat'')
        (map (\<lambda>j. raw9 (krecs ! j)) jdx)) = map (\<lambda>j. lats ! j) jdx"
  proof -
    have "map (\<lambda>r. cell_at r ''capital_lat'') (map raw9 krecs)
        = map (\<lambda>rec. raw_cell L rec ''latitude'') krecs"
      by (simp add: comp_def cell_at_def raw9_def)
    then have "to_numeric L (map (\<lambda>r. cell_at r ''capital_lat'')
        (map (\<lambda>j. raw9 (krecs ! j)) jdx)) = lats"
      by (simp only: lats_def coordinate_column_def raw_idx[symmetric])
    moreover have "map (\<lambda>j. lats ! j) jdx = lats"
      unfolding jdx_def len_lats[symmetric] by (rule map_nth)
    ultimately show ?thesis by simp
  qed
  have set_lat: "set_column ''capital_lat'' (map (\<lambda>j. lats ! j) jdx)
        \<lparr>columns = map snd keep_cols, data_rows = map (\<lambda>j. raw9 (krecs ! j)) jdx\<rparr>
      = \<lparr>columns = map snd keep_cols, data_rows = map lat9 jdx\<rparr>"
    unfolding set_column_map by (simp add: put_cell_def raw9_def lat9_def)
  have lon_series: "to_numeric L (map (\<lambda>r. cell_at r ''capital_lon'') (map lat9 jdx))
      = map (\<lambda>j. lons ! j) jdx"
  proof -
    have "map (\<lambda>r. cell_at r ''capital_lon'') (map lat9 jdx)
        = map (\<lambda>j. raw_cell L (krecs ! j) ''longitude'') [0..<length krecs]"
      by (simp add: comp_def cell_at_def lat9_def jdx_def)
    also have "\<dots> = map (\<lambda>rec. raw_cell L rec ''longitude'') krecs"
      by (rule map_by_index[symmetric])
    finally have "to_numeric L (map (\<lambda>r. cell_at r ''capital_lon'') (map lat9 jdx)) = lons"
      by (simp only: lons_def coordinate_column_def)
    moreover have "map (\<lambda>j. lons ! j) jdx = lons"
      unfolding jdx_def len_lons[symmetric] by (rule map_nth)
    ultimately show ?thesis by simp
  qed
  have set_lon: "set_column ''capital_lon'' (map (\<lambda>j. lons ! j) jdx)
        \<lparr>columns = map snd keep_cols, data_rows = map lat9 jdx\<rparr>
      = \<lparr>columns = map snd keep_cols,
         data_rows = map (\<lambda>j. cty_row L (krecs ! j) (lats ! j) (lons ! j)) jdx\<rparr>"
    unfolding set_column_map by (simp add: put_cell_def lat9_def cty_row_def)
  have by_rec: "map (\<lambda>j. cty_row L (krecs ! j) (lats ! j) (lons ! j)) jdx
      = map (\<lambda>(rec, lat, lon). cty_row L rec lat lon) (zip krecs (zip lats lons))"
    unfolding jdx_def using len_lats len_lons by (rule zip3_indexed)
  have "countries_frame L rows =
     Inr \<lparr>columns = map snd keep_cols,
          data_rows = map (\<lambda>(rec, lat, lon). cty_row L rec lat lon) (zip krecs (zip lats lons))\<rparr>"
    unfolding countries_frame_def jn sum.case ser keep mask_tabulated sel raw_rows
      frame.select_convs raw_idx lat_series set_lat lon_series set_lon by_rec ..
  then show ?thesis
    by (simp add: krecs_def lats_def lons_def recs_def)
qed

text \<open>
  C7, as stated, fails: an item whose region identifier is not \<^verbatim>\<open>"NA"\<close> is not present
  in the output when no item of the batch has the field \<^verbatim>\<open>iso2Code\<close>; selecting the nine
  columns raises \<open>KeyError\<close> and there is no output table.
\<close>

theorem countries_frame_missing_field_aborts:
  "countries_frame plain_lib
     [JObj [(''id'', JStr ''FRA''), (''name'', JStr ''France''),
            (''region'', JObj [(''id'', JStr ''ECS''), (''value'', JStr ''Europe & Central Asia'')])]]
   = Inl (KeyError ''iso2Code'')"
  by (simp add: countries_frame_def json_normalize_def DataFrame_def normalise_json_ordered_def
      dict_update_def new_key_def series_def mask_rows_def select_columns_def keep_cols_def
      column_of_def infer_column_def cell_at_def in_int64_def)

lemma flat_sample_countries: "map simple_json_normalize sample_countries =
   [[(''id'', JStr ''EUU''), (''iso2Code'', JStr ''EU''), (''name'', JStr ''European Union''),
     (''capitalCity'', JStr []), (''longitude'', JStr []), (''latitude'', JStr []),
     (''region.id'', JStr ''NA''), (''region.iso2code'', JStr ''NA''),
     (''region.value'', JStr ''Aggregates''),
     (''incomeLevel.id'', JStr ''NA''), (''incomeLevel.value'', JStr ''Aggregates''),
     (''lendingType.id'', JStr []), (''lendingType.value'', JStr ''Aggregates'')],
    [(''id'', JStr ''FRA''), (''iso2Code'', JStr ''FR''), (''name'', JStr ''France''),
     (''capitalCity'', JStr ''Paris''), (''longitude'', JStr ''2''), (''latitude'', JStr ''48''),
     (''region.id'', JStr ''ECS''), (''region.iso2code'', JStr ''Z7''),
     (''region.value'', JStr ''Europe & Central Asia''),
     (''incomeLevel.id'', JStr ''HIC''), (''incomeLevel.value'', JStr ''High income''),
     (''lendingType.id'', JStr ''LNX''), (''lendingType.value'', JStr ''Not classified'')]]"
  by (simp add: sample_countries_def normalise_json_ordered_def dict_update_def new_key_def)

lemma sample_countries_ok:
  "(sample_countries :: 'f json list) \<noteq> []"
  "\<not> list_ex is_list (sample_countries :: 'f json list)"
  "no_big_int (sample_countries :: 'f json list)"
  "insert ''region.id'' (set (map fst keep_cols)) \<subseteq> flat_keys (sample_countries :: 'f json list)"
  "\<forall>r\<in>set (sample_countries :: 'f json list). text_field L (simple_json_normalize r) ''region.id''"
  "\<forall>r\<in>set (sample_countries :: 'f json list).
      no_int_field L (map fst keep_cols) (simple_json_normalize r)"
proof -
  show "(sample_countries :: 'f json list) \<noteq> []"
    by (simp add: sample_countries_def)
  show "\<not> list_ex is_list (sample_countries :: 'f json list)"
    by (simp add: sample_countries_def)
  have "\<not> list_ex (\<lambda>rec. list_ex (\<lambda>kv. big_int (snd kv)) rec)
      (map simple_json_normalize (sample_countries :: 'f json list))"
    unfolding flat_sample_countries by simp
  then show "no_big_int (sample_countries :: 'f json list)"
    by (simp add: no_big_int_def list_ex_iff)
  have "flat_keys (sample_countries :: 'f json list) =
      set (concat (map (map fst) (map simple_json_normalize (sample_countries :: 'f json list))))"
    by (simp add: flat_keys_def comp_def)
  then show "insert ''region.id'' (set (map fst keep_cols))
      \<subseteq> flat_keys (sample_countries :: 'f json list)"
    unfolding flat_sample_countries by (simp add: keep_cols_def)
  have "\<forall>rec\<in>set (map simple_json_normalize (sample_countries :: 'f json list)).
      text_field L rec ''region.id''"
    unfolding flat_sample_countries by (simp add: text_field_def raw_cell_def)
  then show "\<forall>r\<in>set (sample_countries :: 'f json list).
      text_field L (simple_json_normalize r) ''region.id''"
    by simp
  have "\<forall>rec\<in>set (map simple_json_normalize (sample_countries :: 'f json list)).
      no_int_field L (map fst keep_cols) rec"
    unfolding flat_sample_countries by (simp add: no_int_field_def keep_cols_def raw_cell_def)
  then show "\<forall>r\<in>set (sample_countries :: 'f json list).
      no_int_field L (map fst keep_cols) (simple_json_normalize r)"
    by simp
qed

lemma sample_countries_rows:
  "map (\<lambda>(rec, lat, lon). cty_row plain_lib rec lat lon)
     (zip (filter (cty_kept plain_lib) (map simple_json_normalize sample_countries))
        (zip (coordinate_column plain_lib ''latitude''
                (filter (cty_kept plain_lib) (map simple_json_normalize sample_countries)))
             (coordinate_column plain_lib ''longitude''
                (filter (cty_kept plain_lib) (map simple_json_normalize sample_countries)))))
   = [[(''country_iso3'', Val (JStr ''FRA'')),
       (''country_iso2'', Val (JStr ''FR'')),
       (''country_name'', Val (JStr ''France'')),
       (''region'', Val (JStr ''Europe & Central Asia'')),
       (''income_level'', Val (JStr ''High income'')),
       (''lending_type'', Val (JStr ''Not classified'')),
       (''capital_city'', Val (JStr ''Paris'')),
       (''capital_lat'', Val (JInt 48)),
       (''capital_lon'', Val (JInt 2))]]"
  unfolding flat_sample_countries
  by (simp add: cty_kept_def cty_row_def raw_cell_def coordinate_column_def to_numeric_def
      float_column_def int_cells_def plain_lib_def decimal_int_def)

text \<open>
  The amended C7 on the two sample items: the aggregate, whose region identifier is
  \<^verbatim>\<open>"NA"\<close>, is excluded and France is present.
\<close>

theorem countries_frame_rowwise_witness:
  "countries_frame plain_lib sample_countries =
     Inr \<lparr>columns = [''country_iso3'', ''country_iso2'', ''country_name'', ''region'',
                       ''income_level'', ''lending_type'', ''capital_city'', ''capital_lat'',
                       ''capital_lon''],
          data_rows =
            [[(''country_iso3'', Val (JStr ''FRA'')),
              (''country_iso2'', Val (JStr ''FR'')),
              (''country_name'', Val (JStr ''France'')),
              (''region'', Val (JStr ''Europe & Central Asia'')),
              (''income_level'', Val (JStr ''High income'')),
              (''lending_type'', Val (JStr ''Not classified'')),
              (''capital_city'', Val (JStr ''Paris'')),
              (''capital_lat'', Val (JInt 48)),
              (''capital_lon'', Val (JInt 2))]]\<rparr>"
  using countries_frame_rowwise[where L = plain_lib, OF sample_countries_ok]
  unfolding sample_countries_rows by (simp add: keep_cols_def)

lemma indicators_frame_empty: "indicators_frame L [] = Inl (KeyError ''country_iso3'')"
  by (simp add: indicators_frame_def json_normalize_def rename_def select_columns_def
      indicator_columns_def)

lemma fetch_indicators_long_empty_first_page:
  assumes "tr t (indicators_request s e codes 1) = Response 200 (Some data)"
    and "items_or_empty data = JArr []"
  shows "fetch_indicators_long L tr s e codes t =
     Some (Inl (KeyError ''country_iso3''), t @ [Get (indicators_request s e codes 1)])"
proof -
  have "\<not> truthy L (items_or_empty data)"
    using assms(2) by simp
  then have "fetch_indicators_long_loop L tr s e codes 1 [] t =
      Some (Inr [], t @ [Get (indicators_request s e codes 1)])"
    using assms(1) by (rule fetch_indicators_long_loop_guard[rotated])
  then show ?thesis
    by (simp add: fetch_indicators_long_def indicators_frame_empty)
qed

text \<open>
  C9. Take a run of \<^verbatim>\<open>main\<close> whose configuration is complete, whose BigQuery client and
  tables are made, and whose country fetch returns a table. When the first page of
  observations has an empty items list, the loop ends with no rows, the normalised frame
  has no columns, and selecting the six columns raises \<open>KeyError\<close>:
  \<^verbatim>\<open>fetch_indicators_long\<close> raises instead of returning an empty table, and \<^verbatim>\<open>main\<close> ends
  with that \<open>KeyError\<close> right after the request of the first page: no load job is made
  and the tables are as they were before the fetches.
\<close>

theorem no_observations_aborts_run:
  assumes project: "getenv X ''GCP_PROJECT_ID'' = Some project_id" "project_id \<noteq> []"
    and credentials: "getenv X ''GOOGLE_APPLICATION_CREDENTIALS'' = Some key_file" "key_file \<noteq> []"
    and start_year: "getenv_int L X ''WB_START_YEAR'' ''2020'' = Inr start_year"
    and end_year: "getenv_int L X ''WB_END_YEAR'' ''2025'' = Inr end_year"
    and client: "bq_raises X (trace w @ [Uuid4, Now]) (NewClient project_id) = None"
    and ensured: "bq_ensure_tables X project_id
          (case getenv X ''BQ_DATASET_RAW'' of Some d \<Rightarrow> d | None \<Rightarrow> ''wb_raw'')
          (log (NewClient project_id) (log Now (log Uuid4 w))) = (Inr names, w1)"
    and countries: "fetch_countries_dim L (transport X) (trace w1) = Some (Inr countries, t1)"
    and first_page: "transport X t1 (indicators_request start_year end_year (map fst INDICATORS) 1)
          = Response 200 (Some data)"
    and no_items: "items_or_empty data = JArr []"
  shows "fetch_indicators_long L (transport X) start_year end_year (map fst INDICATORS) t1 =
       Some (Inl (KeyError ''country_iso3''),
             t1 @ [Get (indicators_request start_year end_year (map fst INDICATORS) 1)])
     \<and> main L X w =
       Some (Inl (KeyError ''country_iso3''),
             w1\<lparr>trace := t1 @ [Get (indicators_request start_year end_year (map fst INDICATORS) 1)]\<rparr>)"
proof -
  have ind: "fetch_indicators_long L (transport X) start_year end_year (map fst INDICATORS) t1 =
       Some (Inl (KeyError ''country_iso3''),
             t1 @ [Get (indicators_request start_year end_year (map fst INDICATORS) 1)])"
    using first_page no_items by (rule fetch_indicators_long_empty_first_page)
  have load: "fetch_stamp_load L X start_year end_year run_id load_ts ind_table cty_table w1 =
       Some (Inl (KeyError ''country_iso3''),
             w1\<lparr>trace := t1 @ [Get (indicators_request start_year end_year (map fst INDICATORS) 1)]\<rparr>)"
    for run_id load_ts ind_table cty_table
    by (simp add: fetch_stamp_load_def countries ind Let_def)
  have "main L X w =
       Some (Inl (KeyError ''country_iso3''),
             w1\<lparr>trace := t1 @ [Get (indicators_request start_year end_year (map fst INDICATORS) 1)]\<rparr>)"
    using project(2) credentials(2)
    by (simp add: main_def project(1) credentials(1) start_year end_year client ensured load)
  with ind show ?thesis by simp
qed

lemma sample_start:
  "bq_ensure_tables (sample_outside obs) ''proj'' ''wb_raw''
      (log (NewClient ''proj'') (log Now (log Uuid4 empty_world)))
   = (Inr (''proj.wb_raw.raw_wb_indicators_long'', ''proj.wb_raw.raw_country_dim''), started_world)"
  by (simp add: bq_ensure_tables_def ensure_table_def log_def sample_outside_def empty_world_def
      started_world_def ind_table_name_def cty_table_name_def)

lemma sample_countries_frame: "countries_frame plain_lib sample_countries = Inr sample_dimension"
  by code_simp

lemma sample_countries_fetch:
  "fetch_countries_dim plain_lib (sample_transport obs) t =
     Some (Inr sample_dimension, t @ [Get (countries_request 1)])"
proof -
  have "sample_transport obs t (countries_request 1)
      = Response 200 (Some (page_json ([(''page'', JInt 1), (''pages'', JInt 1)], sample_countries)))"
    by (simp add: sample_transport_def countries_request_def serve_pages_def countries_params_def
        countries_page_def)
  moreover have "reports_last (fst ([(''page'', JInt 1), (''pages'', JInt 1)], sample_countries))
      = Some True"
    by (simp add: reports_last_def)
  ultimately have "fetch_countries_dim_loop plain_lib (sample_transport obs) 1 [] t =
      Some (Inr sample_countries, t @ [Get (countries_request 1)])"
    using countries_step[of "sample_transport obs" t 1
        "([(''page'', JInt 1), (''pages'', JInt 1)], sample_countries)" True plain_lib "[]"]
    by simp
  then show ?thesis
    by (simp add: fetch_countries_dim_def sample_countries_frame)
qed

lemma sample_first_page:
  "sample_transport obs t (indicators_request 2020 2025 (map fst INDICATORS) 1)
     = Response 200 (Some obs)"
  by (simp add: sample_transport_def indicators_request_def indicators_url_def countries_url_def
      WB_BASE_def serve_pages_def indicators_params_def)

lemma sample_years:
  "getenv_int plain_lib (sample_outside obs) ''WB_START_YEAR'' ''2020'' = Inr 2020"
  "getenv_int plain_lib (sample_outside obs) ''WB_END_YEAR'' ''2025'' = Inr 2025"
  by (simp_all add: getenv_int_def sample_outside_def plain_lib_def decimal_int_def)

text \<open>
  C9 on the sample run with no observations: the run ends with \<open>KeyError\<close> after the two
  requests, and both tables are empty.
\<close>

theorem no_observations_aborts_run_witness:
  "fetch_indicators_long plain_lib (sample_transport empty_first_page) 2020 2025
       (map fst INDICATORS) (trace started_world @ [Get (countries_request 1)]) =
     Some (Inl (KeyError ''country_iso3''),
           trace started_world @ [Get (countries_request 1),
             Get (indicators_request 2020 2025 (map fst INDICATORS) 1)])
   \<and> main plain_lib (sample_outside empty_first_page) empty_world =
     Some (Inl (KeyError ''country_iso3''),
           started_world\<lparr>trace := trace started_world @ [Get (countries_request 1),
             Get (indicators_request 2020 2025 (map fst INDICATORS) 1)]\<rparr>)"
proof -
  have project: "getenv (sample_outside empty_first_page) ''GCP_PROJECT_ID'' = Some ''proj''"
      "''proj'' \<noteq> []"
    and credentials: "getenv (sample_outside empty_first_page) ''GOOGLE_APPLICATION_CREDENTIALS''
        = Some ''key.json''" "''key.json'' \<noteq> []"
    and client: "bq_raises (sample_outside empty_first_page) (trace empty_world @ [Uuid4, Now])
        (NewClient ''proj'') = None"
    by (simp_all add: sample_outside_def)
  have ensured: "bq_ensure_tables (sample_outside empty_first_page) ''proj''
          (case getenv (sample_outside empty_first_page) ''BQ_DATASET_RAW'' of
             Some d \<Rightarrow> d | None \<Rightarrow> ''wb_raw'')
          (log (NewClient ''proj'') (log Now (log Uuid4 empty_world)))
      = (Inr (''proj.wb_raw.raw_wb_indicators_long'', ''proj.wb_raw.raw_country_dim''),
         started_world)"
  proof -
    have "getenv (sample_outside empty_first_page) ''BQ_DATASET_RAW'' = None"
      by (simp add: sample_outside_def)
    then show ?thesis
      by (simp add: sample_start)
  qed
  have countries: "fetch_countries_dim plain_lib (transport (sample_outside empty_first_page))
        (trace started_world)
      = Some (Inr sample_dimension, trace started_world @ [Get (countries_request 1)])"
    by (simp add: sample_outside_def sample_countries_fetch)
  have first_page: "transport (sample_outside empty_first_page)
        (trace started_world @ [Get (countries_request 1)])
        (indicators_request 2020 2025 (map fst INDICATORS) 1)
      = Response 200 (Some empty_first_page)"
    by (simp add: sample_outside_def sample_first_page)
  have no_items: "items_or_empty empty_first_page = JArr []"
    by (simp add: empty_first_page_def)
  show ?thesis
    using no_observations_aborts_run[OF project credentials sample_years client ensured countries
        first_page no_items]
    by (simp add: sample_outside_def)
qed

end
